theory Spec2Isabelle
  imports Complex_Main
begin

section \<open>Values, errors and arrays\<close>

text \<open>
  The module \<^verbatim>\<open>dic.py\<close> computes on numpy arrays of float64. The embedding keeps the
  array structure (a shape and a row-major buffer) and numpy's broadcasting rules. The
  arithmetic has two forms. For \<open>zncc\<close> and \<open>get_error_image\<close>, whose results depend
  on a computed standard deviation being exactly zero or not, an image is an array of
  \<open>fl\<close> and every operation is rounded to float64. For the other functions a finite
  float64 is a real number and rounding is not modelled. The IEEE special values that
  the code can produce (an overflow, a division by zero, the mean of an empty array, an
  arcsine out of its domain) are the values \<open>PInf\<close>, \<open>NInf\<close> and \<open>NaN\<close> of the type
  \<open>fl\<close>; zero is unsigned and read as \<open>+0.0\<close>, which is the only zero that \<^verbatim>\<open>np.std\<close>
  returns.
\<close>

datatype py_error = ValueError | IndexError | TypeError | LinAlgError | Unsupported

text \<open>
  \<open>Unsupported\<close> is not a Python exception: it marks the array ranks for which a numpy
  or scipy routine is not modelled here (the callers in \<^verbatim>\<open>dic.py\<close> document 2-D images
  and 3x3 matrices).
\<close>

datatype fl = Fin real | PInf | NInf | NaN

fun fneg :: "fl \<Rightarrow> fl" where
  "fneg (Fin a) = Fin (- a)"
| "fneg PInf = NInf"
| "fneg NInf = PInf"
| "fneg NaN = NaN"

fun fadd :: "fl \<Rightarrow> fl \<Rightarrow> fl" where
  "fadd (Fin a) (Fin b) = Fin (a + b)"
| "fadd NaN _ = NaN"
| "fadd _ NaN = NaN"
| "fadd PInf NInf = NaN"
| "fadd NInf PInf = NaN"
| "fadd PInf _ = PInf"
| "fadd NInf _ = NInf"
| "fadd (Fin a) PInf = PInf"
| "fadd (Fin a) NInf = NInf"

definition fsub :: "fl \<Rightarrow> fl \<Rightarrow> fl" where
  "fsub a b = fadd a (fneg b)"

definition inf_of_sign :: "real \<Rightarrow> fl" where
  "inf_of_sign a = (if 0 < a then PInf else if a < 0 then NInf else NaN)"

fun fmul :: "fl \<Rightarrow> fl \<Rightarrow> fl" where
  "fmul (Fin a) (Fin b) = Fin (a * b)"
| "fmul NaN _ = NaN"
| "fmul _ NaN = NaN"
| "fmul (Fin a) PInf = inf_of_sign a"
| "fmul (Fin a) NInf = inf_of_sign (- a)"
| "fmul PInf (Fin b) = inf_of_sign b"
| "fmul NInf (Fin b) = inf_of_sign (- b)"
| "fmul PInf PInf = PInf"
| "fmul PInf NInf = NInf"
| "fmul NInf PInf = NInf"
| "fmul NInf NInf = PInf"

fun fdiv :: "fl \<Rightarrow> fl \<Rightarrow> fl" where
  "fdiv (Fin a) (Fin b) = (if b = 0 then inf_of_sign a else Fin (a / b))"
| "fdiv NaN _ = NaN"
| "fdiv _ NaN = NaN"
| "fdiv (Fin a) PInf = Fin 0"
| "fdiv (Fin a) NInf = Fin 0"
| "fdiv PInf (Fin b) = (if b < 0 then NInf else PInf)"
| "fdiv NInf (Fin b) = (if b < 0 then PInf else NInf)"
| "fdiv PInf PInf = NaN"
| "fdiv PInf NInf = NaN"
| "fdiv NInf PInf = NaN"
| "fdiv NInf NInf = NaN"

subsection \<open>Rounding to float64\<close>

text \<open>
  IEEE 754 binary64 with rounding to nearest, ties to even: an operation returns the
  rounding of its exact result. \<open>rhe\<close> rounds a real number to the nearest integer,
  a tie to the even one. The exponent of a non-zero \<open>x\<close> is the \<open>e\<close> with
  \<open>2^e \<le> |x| < 2^(e+1)\<close>, found by halving or doubling \<open>|x|\<close>; it is kept at \<open>-1022\<close> for
  the subnormal numbers and for zero. The float64 numbers at \<open>x\<close> are the integer
  multiples of \<open>2^(e-52)\<close>, and \<open>rnd x\<close> is the nearest of them. A result that rounds to
  magnitude \<open>2^1024\<close> or more is an infinity.
\<close>

definition rhe :: "real \<Rightarrow> int" where
  "rhe q = (let f = \<lfloor>q\<rfloor>; r = q - of_int f
            in if r < 1 / 2 then f else if 1 / 2 < r then f + 1
               else if even f then f else f + 1)"

fun exp_up :: "nat \<Rightarrow> real \<Rightarrow> nat" where
  "exp_up 0 x = 0"
| "exp_up (Suc n) x = (if 2 \<le> x then Suc (exp_up n (x / 2)) else 0)"

fun exp_down :: "nat \<Rightarrow> real \<Rightarrow> nat" where
  "exp_down 0 x = 0"
| "exp_down (Suc n) x = (if x < 1 then Suc (exp_down n (2 * x)) else 0)"

definition f64_emax :: nat where
  "f64_emax = 1023"

definition f64_emin :: nat where
  "f64_emin = 1022"

definition f64_exponent :: "real \<Rightarrow> int" where
  "f64_exponent x =
     (if 1 \<le> \<bar>x\<bar> then int (exp_up (Suc f64_emax) \<bar>x\<bar>)
      else - int (exp_down f64_emin \<bar>x\<bar>))"

definition rnd :: "real \<Rightarrow> fl" where
  "rnd x =
     (let e = f64_exponent x; ulp = 2 powi (e - 52); n = rhe (x / ulp)
      in if int f64_emax < e \<or> (e = int f64_emax \<and> 2 ^ 53 \<le> \<bar>n\<bar>) then inf_of_sign x
         else Fin (of_int n * ulp))"

fun round_fl :: "fl \<Rightarrow> fl" where
  "round_fl (Fin x) = rnd x"
| "round_fl PInf = PInf"
| "round_fl NInf = NInf"
| "round_fl NaN = NaN"

text \<open>The float64 operations \<^verbatim>\<open>+\<close>, \<^verbatim>\<open>-\<close>, \<^verbatim>\<open>*\<close>, \<^verbatim>\<open>/\<close> and \<^verbatim>\<open>np.sqrt\<close>.\<close>

definition f64_add :: "fl \<Rightarrow> fl \<Rightarrow> fl" where
  "f64_add a b = round_fl (fadd a b)"

definition f64_sub :: "fl \<Rightarrow> fl \<Rightarrow> fl" where
  "f64_sub a b = round_fl (fsub a b)"

definition f64_mul :: "fl \<Rightarrow> fl \<Rightarrow> fl" where
  "f64_mul a b = round_fl (fmul a b)"

definition f64_div :: "fl \<Rightarrow> fl \<Rightarrow> fl" where
  "f64_div a b = round_fl (fdiv a b)"

fun f64_sqrt :: "fl \<Rightarrow> fl" where
  "f64_sqrt (Fin x) = (if x < 0 then NaN else rnd (sqrt x))"
| "f64_sqrt PInf = PInf"
| "f64_sqrt NInf = NaN"
| "f64_sqrt NaN = NaN"

definition is_finite :: "fl \<Rightarrow> bool" where
  "is_finite v = (case v of Fin x \<Rightarrow> True | _ \<Rightarrow> False)"

text \<open>The float64 number nearest to one tenth, which Python writes \<^verbatim>\<open>0.1\<close>.\<close>

abbreviation f64_tenth :: real where
  "f64_tenth \<equiv> 3602879701896397 / 36028797018963968"

subsection \<open>Arrays\<close>

text \<open>A numpy array: its shape and its elements in row-major order.\<close>

datatype 'a ndarray = Array (shape: "nat list") (data: "'a list")

definition wf :: "'a ndarray \<Rightarrow> bool" where
  "wf a \<longleftrightarrow> length (data a) = prod_list (shape a)"

definition np_map :: "('a \<Rightarrow> 'b) \<Rightarrow> 'a ndarray \<Rightarrow> 'b ndarray" where
  "np_map f a = Array (shape a) (map f (data a))"

definition ebind :: "'e + 'a \<Rightarrow> ('a \<Rightarrow> 'e + 'b) \<Rightarrow> 'e + 'b" where
  "ebind m f = (case m of Inl e \<Rightarrow> Inl e | Inr x \<Rightarrow> f x)"

subsection \<open>Broadcasting\<close>

text \<open>
  Shapes are aligned at their last axis; two axis lengths are compatible when they are
  equal or one of them is 1. The function works on the reversed shapes.
\<close>

fun bshape_rev :: "nat list \<Rightarrow> nat list \<Rightarrow> nat list option" where
  "bshape_rev [] ys = Some ys"
| "bshape_rev (x # xs) [] = Some (x # xs)"
| "bshape_rev (x # xs) (y # ys) =
     (if x = y \<or> y = 1 then map_option ((#) x) (bshape_rev xs ys)
      else if x = 1 then map_option ((#) y) (bshape_rev xs ys)
      else None)"

definition broadcast_shapes :: "nat list \<Rightarrow> nat list \<Rightarrow> nat list option" where
  "broadcast_shapes s t = map_option rev (bshape_rev (rev s) (rev t))"

definition pad_shape :: "nat \<Rightarrow> nat list \<Rightarrow> nat list" where
  "pad_shape n t = replicate (n - length t) 1 @ t"

text \<open>The \<open>n\<close> consecutive blocks of \<open>k\<close> elements of a buffer.\<close>

definition chunks :: "nat \<Rightarrow> nat \<Rightarrow> 'a list \<Rightarrow> 'a list list" where
  "chunks k n d = map (\<lambda>i. take k (drop (i * k) d)) [0..<n]"

text \<open>
  \<open>bcast s t d\<close> is the buffer of an array of shape \<open>t\<close> and buffer \<open>d\<close> viewed at the
  shape \<open>s\<close>, for \<open>t\<close> padded to the length of \<open>s\<close>: an axis of equal length is
  traversed, an axis of length 1 is repeated.
\<close>

fun bcast :: "nat list \<Rightarrow> nat list \<Rightarrow> 'a list \<Rightarrow> 'a list" where
  "bcast (n # s) (m # t) d =
     (if m = n then concat (map (bcast s t) (chunks (prod_list t) n d))
      else concat (replicate n (bcast s t d)))"
| "bcast _ _ d = d"

definition np_binop ::
  "('a \<Rightarrow> 'b \<Rightarrow> 'c) \<Rightarrow> 'a ndarray \<Rightarrow> 'b ndarray \<Rightarrow> py_error + 'c ndarray" where
  "np_binop f a b =
     (case broadcast_shapes (shape a) (shape b) of
        None \<Rightarrow> Inl ValueError
      | Some s \<Rightarrow>
          Inr (Array s (map2 f (bcast s (pad_shape (length s) (shape a)) (data a))
                               (bcast s (pad_shape (length s) (shape b)) (data b)))))"

subsection \<open>Reductions and indexing\<close>

text \<open>
  \<^verbatim>\<open>np.mean\<close>, \<^verbatim>\<open>np.var\<close> and \<^verbatim>\<open>np.std\<close> over all elements of a contiguous float64
  array, as numpy computes them:
  \<^verbatim>\<open>
  mean(a) = add.reduce(a) / n
  var(a)  = add.reduce((a - mean(a)) * (a - mean(a))) / n
  std(a)  = sqrt(var(a))
  \<close>
  with every operation rounded. \<^verbatim>\<open>add.reduce\<close> is numpy's pairwise summation: fewer
  than 8 elements are added from left to right starting at 0; up to 128 elements are
  added into 8 running sums that are combined as a tree, then the remaining elements are
  added from left to right; a longer buffer is split at half its length, rounded down to
  a multiple of 8. \<open>n\<close> is the element count converted to float64. On an empty array
  numpy divides 0 by 0 and returns nan (with a warning, not an exception).
\<close>

function pairwise_sum :: "fl list \<Rightarrow> fl" where
  "pairwise_sum a =
     (if length a < 8 then foldl f64_add (Fin 0) a
      else if length a \<le> 128 then
        (let m = length a - length a mod 8;
             r = foldl (map2 f64_add) (take 8 a) (chunks 8 (m div 8 - 1) (drop 8 a));
             res = f64_add (f64_add (f64_add (r ! 0) (r ! 1)) (f64_add (r ! 2) (r ! 3)))
                           (f64_add (f64_add (r ! 4) (r ! 5)) (f64_add (r ! 6) (r ! 7)))
         in foldl f64_add res (drop m a))
      else
        (let n2 = length a div 2 - length a div 2 mod 8
         in f64_add (pairwise_sum (take n2 a)) (pairwise_sum (drop n2 a))))"
  by pat_completeness auto
termination
  by (relation "measure length") auto

declare pairwise_sum.simps [simp del]

definition np_mean :: "fl ndarray \<Rightarrow> fl" where
  "np_mean a = f64_div (pairwise_sum (data a)) (rnd (real (length (data a))))"

definition np_var :: "fl ndarray \<Rightarrow> fl" where
  "np_var a =
     (let arrmean = np_mean a;
          x = map (\<lambda>v. f64_sub v arrmean) (data a);
          x2 = map (\<lambda>v. f64_mul v v) x
      in f64_div (pairwise_sum x2) (rnd (real (length (data a)))))"

definition np_std :: "fl ndarray \<Rightarrow> fl" where
  "np_std a = f64_sqrt (np_var a)"

text \<open>
  The exact mean of a buffer of real numbers, for the functions whose arithmetic is
  idealised (\<open>get_initial_guess\<close> centres its two images with it).
\<close>

definition mean_list :: "real list \<Rightarrow> real" where
  "mean_list xs = sum_list xs / real (length xs)"

text \<open>
  \<^verbatim>\<open>a - np.mean(a)\<close>. When \<open>a\<close> is empty its mean is nan, and there is no element to
  subtract it from: the result is the same empty array. Otherwise the mean is finite.
\<close>

definition np_sub_mean :: "real ndarray \<Rightarrow> real ndarray" where
  "np_sub_mean a = np_map (\<lambda>x. x - mean_list (data a)) a"

text \<open>\<^verbatim>\<open>a[i]\<close> for \<open>i \<ge> 0\<close>, \<^verbatim>\<open>len(a)\<close>, \<^verbatim>\<open>x, y = a\<close> and \<^verbatim>\<open>a[:-1]\<close>, on the first axis.\<close>

definition np_getitem :: "'a ndarray \<Rightarrow> nat \<Rightarrow> py_error + 'a ndarray" where
  "np_getitem a i =
     (case shape a of
        [] \<Rightarrow> Inl IndexError
      | n # s \<Rightarrow>
          if i < n then Inr (Array s (take (prod_list s) (drop (i * prod_list s) (data a))))
          else Inl IndexError)"

definition py_len :: "'a ndarray \<Rightarrow> py_error + nat" where
  "py_len a = (case shape a of [] \<Rightarrow> Inl TypeError | n # s \<Rightarrow> Inr n)"

definition unpack2 :: "'a ndarray \<Rightarrow> py_error + ('a ndarray \<times> 'a ndarray)" where
  "unpack2 a =
     (case shape a of
        [] \<Rightarrow> Inl TypeError
      | n # s \<Rightarrow>
          if n = 2 then
            Inr (Array s (take (prod_list s) (data a)),
                 Array s (take (prod_list s) (drop (prod_list s) (data a))))
          else Inl ValueError)"

definition np_drop_last :: "'a ndarray \<Rightarrow> py_error + 'a ndarray" where
  "np_drop_last a =
     (case shape a of
        [] \<Rightarrow> Inl IndexError
      | n # s \<Rightarrow> Inr (Array ((n - 1) # s) (take ((n - 1) * prod_list s) (data a))))"

text \<open>Element \<open>(i, j)\<close> of a 2-D array.\<close>

definition at2 :: "'a ndarray \<Rightarrow> nat \<Rightarrow> nat \<Rightarrow> 'a" where
  "at2 a i j = data a ! (i * (shape a ! 1) + j)"

text \<open>\<^verbatim>\<open>np.array([a, b])\<close> of two arrays of one shape.\<close>

definition np_stack2 :: "'a ndarray \<Rightarrow> 'a ndarray \<Rightarrow> 'a ndarray" where
  "np_stack2 a b = Array (2 # shape a) (data a @ data b)"

definition np_transpose :: "'a ndarray \<Rightarrow> 'a ndarray" where
  "np_transpose a =
     (let h = shape a ! 0; w = shape a ! 1
      in Array [w, h] (concat (map (\<lambda>j. map (\<lambda>i. at2 a i j) [0..<h]) [0..<w])))"

subsection \<open>Library routines\<close>





text \<open>
  Element \<open>(P, Q)\<close> of the full two-dimensional convolution of \<open>a\<close> and \<open>k\<close>: the sum of
  \<open>a[P - p][Q - q] * k[p][q]\<close> over the indices that fall inside both arrays.
\<close>

definition conv_full_at :: "real ndarray \<Rightarrow> real ndarray \<Rightarrow> nat \<Rightarrow> nat \<Rightarrow> real" where
  "conv_full_at a k P Q =
     sum_list (map (\<lambda>p. sum_list (map (\<lambda>q.
         if p \<le> P \<and> P - p < shape a ! 0 \<and> q \<le> Q \<and> Q - q < shape a ! 1
         then at2 a (P - p) (Q - q) * at2 k p q else 0)
       [0..<shape k ! 1])) [0..<shape k ! 0])"



text \<open>
  \<^verbatim>\<open>scipy.signal.convolve2d(in1, in2, mode='same')\<close>: both inputs must be 2-D; the
  output has the shape of \<open>in1\<close> and is the centred part of the full convolution, with
  zeros outside the image.
\<close>

definition convolve2d_same :: "real ndarray \<Rightarrow> real ndarray \<Rightarrow> py_error + real ndarray" where
  "convolve2d_same in1 in2 =
     (if length (shape in1) \<noteq> 2 \<or> length (shape in2) \<noteq> 2 then Inl ValueError
      else Inr (Array (shape in1)
             (concat (map (\<lambda>m. map (\<lambda>n.
                 conv_full_at in1 in2 (m + (shape in2 ! 0 - 1) div 2)
                                      (n + (shape in2 ! 1 - 1) div 2))
               [0..<shape in1 ! 1]) [0..<shape in1 ! 0]))))"

text \<open>
  \<^verbatim>\<open>np.dot(a, b)\<close> for \<open>b\<close> of rank at most 2: a scalar operand multiplies; otherwise
  the last axis of \<open>a\<close> is summed against the first axis of \<open>b\<close>, and the two lengths
  must agree.
\<close>

definition dotp :: "real list \<Rightarrow> real list \<Rightarrow> real" where
  "dotp xs ys = sum_list (map2 (*) xs ys)"

definition column :: "real ndarray \<Rightarrow> nat \<Rightarrow> real list" where
  "column b j = map (\<lambda>l. at2 b l j) [0..<shape b ! 0]"

definition np_dot :: "real ndarray \<Rightarrow> real ndarray \<Rightarrow> py_error + real ndarray" where
  "np_dot a b =
     (if shape a = [] then Inr (np_map ((*) (hd (data a))) b)
      else if shape b = [] then Inr (np_map (\<lambda>x. x * hd (data b)) a)
      else if 2 < length (shape b) then Inl Unsupported
      else if last (shape a) \<noteq> hd (shape b) then Inl ValueError
      else
        let rows = chunks (last (shape a)) (prod_list (butlast (shape a))) (data a)
        in if length (shape b) = 1
           then Inr (Array (butlast (shape a)) (map (\<lambda>r. dotp r (data b)) rows))
           else Inr (Array (butlast (shape a) @ [shape b ! 1])
                  (concat (map (\<lambda>r. map (\<lambda>j. dotp r (column b j)) [0..<shape b ! 1])
                     rows))))"

text \<open>
  \<^verbatim>\<open>np.linalg.inv\<close>, modelled for the 3x3 matrices that \<^verbatim>\<open>warp_update\<close> passes to it:
  the exact inverse by cofactors, LinAlgError for a singular matrix.
\<close>

definition np_linalg_inv :: "real ndarray \<Rightarrow> py_error + real ndarray" where
  "np_linalg_inv m =
     (if shape m \<noteq> [3, 3] then
        (if length (shape m) < 2 \<or> last (shape m) \<noteq> last (butlast (shape m))
         then Inl LinAlgError else Inl Unsupported)
      else
        let a = at2 m 0 0; b = at2 m 0 1; c = at2 m 0 2;
            d = at2 m 1 0; e = at2 m 1 1; f = at2 m 1 2;
            g = at2 m 2 0; h = at2 m 2 1; i = at2 m 2 2;
            det = a * (e * i - f * h) - b * (d * i - f * g) + c * (d * h - e * g)
        in if det = 0 then Inl LinAlgError
           else Inr (Array [3, 3]
             [(e * i - f * h) / det, (c * h - b * i) / det, (b * f - c * e) / det,
              (f * g - d * i) / det, (a * i - c * g) / det, (c * d - a * f) / det,
              (d * h - e * g) / det, (b * g - a * h) / det, (a * e - b * d) / det]))"

text \<open>\<^verbatim>\<open>np.arcsin\<close> returns nan outside \<open>[-1, 1]\<close>; it raises no exception.\<close>

definition np_arcsin :: "real \<Rightarrow> fl" where
  "np_arcsin x = (if - 1 \<le> x \<and> x \<le> 1 then Fin (arcsin x) else NaN)"

text \<open>\<^verbatim>\<open>a.reshape(s)\<close> for a shape \<open>s\<close> of non-negative lengths.\<close>

definition np_reshape :: "'a ndarray \<Rightarrow> nat list \<Rightarrow> py_error + 'a ndarray" where
  "np_reshape a s =
     (if prod_list s = length (data a) then Inr (Array s (data a)) else Inl ValueError)"

section \<open>Correlation metric\<close>

text \<open>
  \<^verbatim>\<open>
  def zncc(im1, im2):
      nom = np.mean((im1-im1.mean())*(im2-im2.mean()))
      den = im1.std()*im2.std()
      if den == 0:
          return 0
      return nom/den
  \<close>
  The images are float64 arrays and every operation is rounded. The two centred images
  are multiplied with broadcasting, which raises ValueError for incompatible shapes. The
  integer 0 of the degenerate branch is the value \<open>Fin 0\<close>; a nan denominator is not
  equal to 0 and the quotient is returned.
\<close>

definition zncc :: "fl ndarray \<Rightarrow> fl ndarray \<Rightarrow> py_error + fl" where
  "zncc im1 im2 =
     ebind (np_binop f64_mul (np_map (\<lambda>v. f64_sub v (np_mean im1)) im1)
                             (np_map (\<lambda>v. f64_sub v (np_mean im2)) im2))
       (\<lambda>prod.
          let nom = np_mean prod;
              den = f64_mul (np_std im1) (np_std im2)
          in if den = Fin 0 then Inr (Fin 0) else Inr (f64_div nom den))"

text \<open>
  A range of computed variances, from \<open>2^-1000\<close> to \<open>2^1000\<close>, inside which the square
  root, its square and the final quotient of \<open>zncc(im, im)\<close> neither underflow nor
  overflow.
\<close>

definition f64_half_range :: nat where
  "f64_half_range = 500"

definition f64_safe :: "real \<Rightarrow> bool" where
  "f64_safe v \<longleftrightarrow> 1 / 2 ^ (2 * f64_half_range) \<le> v \<and> v \<le> 2 ^ (2 * f64_half_range)"

section \<open>Initial alignment estimator\<close>



section \<open>Gradient engine\<close>

text \<open>
  \<^verbatim>\<open>
  def get_gradient(image, kernel='central_fd', prefilter_gauss=True):
      if kernel == 'central_fd':
          if prefilter_gauss:
              x_kernel = np.array([[-0.14086616, -0.20863973,  0.,  0.20863973,  0.14086616]])
          else:
              x_kernel = np.array([[1, -8, 0, 8, -1]], dtype=float)/12
          y_kernel = np.transpose(x_kernel)
      elif len(kernel) == 2 and len(kernel[0]) >= 3:
          x_kernel = kernel[0]
          y_kernel = kernel[1]
      else:
          raise ValueError('Please input valid gradient convolution kernels!')
      g_x = scipy.signal.convolve2d(image, x_kernel, mode='same')
      g_y = scipy.signal.convolve2d(image, y_kernel, mode='same')
      return np.array([g_x, g_y], dtype=np.float64)
  \<close>
  The arguments \<open>img\<close> and \<open>kern\<close> stand for \<^verbatim>\<open>image\<close> and \<^verbatim>\<open>kernel\<close>; the latter is the string \<^verbatim>\<open>'central_fd'\<close> or a sequence of kernel arrays.
\<close>

datatype kernel_spec = Central_fd | Custom "real ndarray list"

definition select_kernels ::
  "kernel_spec \<Rightarrow> bool \<Rightarrow> py_error + (real ndarray \<times> real ndarray)" where
  "select_kernels kern prefilter_gauss =
     (case kern of
        Central_fd \<Rightarrow>
          let x_kernel =
                (if prefilter_gauss
                 then Array [1, 5] [- 0.14086616, - 0.20863973, 0, 0.20863973, 0.14086616]
                 else Array [1, 5] (map (\<lambda>x. x / 12) [1, - 8, 0, 8, - 1]))
          in Inr (x_kernel, np_transpose x_kernel)
      | Custom ks \<Rightarrow>
          if length ks = 2 then
            ebind (py_len (ks ! 0)) (\<lambda>n.
              if 3 \<le> n then Inr (ks ! 0, ks ! 1) else Inl ValueError)
          else Inl ValueError)"

definition get_gradient ::
  "real ndarray \<Rightarrow> kernel_spec \<Rightarrow> bool \<Rightarrow> py_error + real ndarray" where
  "get_gradient img kern prefilter_gauss =
     ebind (select_kernels kern prefilter_gauss) (\<lambda>(x_kernel, y_kernel).
       ebind (convolve2d_same img x_kernel) (\<lambda>g_x.
         ebind (convolve2d_same img y_kernel) (\<lambda>g_y.
           Inr (np_stack2 g_x g_y))))"

section \<open>Rigid warp model\<close>

text \<open>
  \<^verbatim>\<open>
  def jacobian_rigid(h, w):
      ones = np.ones((h, w), dtype=np.float64)
      zeros = np.zeros((h, w), dtype=np.float64)
      x,y = np.meshgrid(np.arange(w).astype(np.float64), np.arange(h).astype(np.float64))
      jac = np.array([[zeros, ones, -y],
                      [ones, zeros, x]])
      return jac
  \<close>
\<close>

definition grid_x :: "nat \<Rightarrow> nat \<Rightarrow> real list" where
  "grid_x h w = concat (replicate h (map real [0..<w]))"

definition grid_y :: "nat \<Rightarrow> nat \<Rightarrow> real list" where
  "grid_y h w = concat (map (\<lambda>r. replicate w (real r)) [0..<h])"

definition jacobian_rigid :: "nat \<Rightarrow> nat \<Rightarrow> real ndarray" where
  "jacobian_rigid h w =
     (let ones = replicate (h * w) 1; zeros = replicate (h * w) 0;
          x = grid_x h w; y = grid_y h w
      in Array [2, 3, h, w] (zeros @ ones @ map uminus y @ ones @ zeros @ x))"

text \<open>
  \<^verbatim>\<open>
  def rigid_transform_matrix(p):
      matrix = np.array([[np.cos(p[2]), -np.sin(p[2]), p[1]],
                      [np.sin(p[2]), np.cos(p[2]), p[0]],
                      [0, 0, 1]], dtype=np.float64)
      return matrix
  \<close>
  For an array \<open>p\<close> of rank 2 or more the entries \<open>p[i]\<close> are arrays, and building the
  float matrix from them and the scalars of the last row raises ValueError.
\<close>

definition rigid_transform_matrix :: "real ndarray \<Rightarrow> py_error + real ndarray" where
  "rigid_transform_matrix p =
     (case shape p of
        [] \<Rightarrow> Inl IndexError
      | n # s \<Rightarrow>
          if n < 3 then Inl IndexError
          else if s \<noteq> [] then Inl ValueError
          else Inr (Array [3, 3]
                 [cos (data p ! 2), - sin (data p ! 2), data p ! 1,
                  sin (data p ! 2), cos (data p ! 2), data p ! 0,
                  0, 0, 1]))"

text \<open>
  \<^verbatim>\<open>
  def param_from_rt_matrix(matrix):
      vy = matrix[1, -1]
      ux = matrix[0, -1]
      try:
          phi = np.arcsin(matrix[1, 0])
      except ValueError:
          phi = np.arccos(matrix[0, 0])
      return np.array([vy, ux, phi], dtype=np.float64)
  \<close>
  \<^verbatim>\<open>np.arcsin\<close> never raises ValueError, so the handler is not reached.
\<close>

definition param_from_rt_matrix :: "real ndarray \<Rightarrow> py_error + fl ndarray" where
  "param_from_rt_matrix matrix =
     (if length (shape matrix) < 2 then Inl IndexError
      else if 2 < length (shape matrix) then Inl Unsupported
      else if shape matrix ! 0 < 2 \<or> shape matrix ! 1 < 1 then Inl IndexError
      else
        let vy = at2 matrix 1 (shape matrix ! 1 - 1);
            ux = at2 matrix 0 (shape matrix ! 1 - 1);
            phi = np_arcsin (at2 matrix 1 0)
        in Inr (Array [3] [Fin vy, Fin ux, phi]))"

text \<open>
  \<^verbatim>\<open>
  def coordinate_warp(matrix, output_shape):
      h, w = output_shape
      x_array = np.tile(np.arange(w), h)
      y_array = np.repeat(np.arange(h), w)
      xy_h = np.vstack((np.vstack((x_array, y_array)), np.ones(w*h))).astype(np.float64)
      uv_h = np.dot(matrix, xy_h)
      uv = uv_h[:-1]
      return uv[0], uv[1]
  \<close>
\<close>

definition coordinate_warp ::
  "real ndarray \<Rightarrow> nat \<times> nat \<Rightarrow> py_error + (real ndarray \<times> real ndarray)" where
  "coordinate_warp matrix output_shape =
     (let h = fst output_shape; w = snd output_shape;
          x_array = grid_x h w;
          y_array = grid_y h w;
          xy_h = Array [3, w * h] (x_array @ y_array @ replicate (w * h) 1)
      in ebind (np_dot matrix xy_h) (\<lambda>uv_h.
           ebind (np_drop_last uv_h) (\<lambda>uv.
             ebind (np_getitem uv 0) (\<lambda>u.
               ebind (np_getitem uv 1) (\<lambda>v. Inr (u, v))))))"

section \<open>Steepest-descent images and Hessian\<close>

text \<open>
  \<^verbatim>\<open>
  def sd_images(grad, jac):
      gx, gy = grad
      jx, jy = jac
      sd_x = gx * jx
      sd_y = gy * jy
      sd_image = sd_x + sd_y
      return sd_image.astype(np.float64)
  \<close>
\<close>

definition sd_images :: "real ndarray \<Rightarrow> real ndarray \<Rightarrow> py_error + real ndarray" where
  "sd_images grad jac =
     ebind (unpack2 grad) (\<lambda>(gx, gy).
       ebind (unpack2 jac) (\<lambda>(jx, jy).
         ebind (np_binop (*) gx jx) (\<lambda>sd_x.
           ebind (np_binop (*) gy jy) (\<lambda>sd_y.
             np_binop (+) sd_x sd_y))))"

text \<open>
  \<^verbatim>\<open>
  def hessian(sd_im, n_param):
      H = np.zeros((n_param, n_param))
      for i in range(n_param):
          h1 = sd_im[i]
          for j in range(n_param):
              if j >= i :
                  h2 = sd_im[j]
                  H[i, j] = np.sum(h1*h2)
              else:
                  H[i, j] = H[j, i]
      return H.astype(np.float64)
  \<close>
  The two loops are recursions over the remaining indices; the state is the buffer of
  \<open>H\<close>, in which \<open>H[i, j]\<close> is the element \<open>i * n_param + j\<close>.
\<close>

fun hessian_inner ::
  "real ndarray \<Rightarrow> nat \<Rightarrow> nat \<Rightarrow> real ndarray \<Rightarrow> nat list \<Rightarrow> real list
     \<Rightarrow> py_error + real list" where
  "hessian_inner sd_im n_param i h1 [] H = Inr H"
| "hessian_inner sd_im n_param i h1 (j # js) H =
     (if i \<le> j then
        ebind (np_getitem sd_im j) (\<lambda>h2.
          ebind (np_binop (*) h1 h2) (\<lambda>pr.
            hessian_inner sd_im n_param i h1 js
              (H[i * n_param + j := sum_list (data pr)])))
      else hessian_inner sd_im n_param i h1 js
             (H[i * n_param + j := H ! (j * n_param + i)]))"

fun hessian_outer ::
  "real ndarray \<Rightarrow> nat \<Rightarrow> nat list \<Rightarrow> real list \<Rightarrow> py_error + real list" where
  "hessian_outer sd_im n_param [] H = Inr H"
| "hessian_outer sd_im n_param (i # is) H =
     ebind (np_getitem sd_im i) (\<lambda>h1.
       ebind (hessian_inner sd_im n_param i h1 [0..<n_param] H) (\<lambda>H'.
         hessian_outer sd_im n_param is H'))"

definition hessian :: "real ndarray \<Rightarrow> nat \<Rightarrow> py_error + real ndarray" where
  "hessian sd_im n_param =
     ebind (hessian_outer sd_im n_param [0..<n_param] (replicate (n_param * n_param) 0))
       (\<lambda>H. Inr (Array [n_param, n_param] H))"

text \<open>
  The image \<open>i\<close> of a stack of steepest-descent images, and the sum over all pixels of
  the product of the images \<open>i\<close> and \<open>j\<close>.
\<close>

definition image_of :: "real ndarray \<Rightarrow> nat \<Rightarrow> real list" where
  "image_of sd_im i =
     take (prod_list (tl (shape sd_im))) (drop (i * prod_list (tl (shape sd_im))) (data sd_im))"

definition pixel_sum :: "real ndarray \<Rightarrow> nat \<Rightarrow> nat \<Rightarrow> real" where
  "pixel_sum sd_im i j = sum_list (map2 (*) (image_of sd_im i) (image_of sd_im j))"

definition sym_sum :: "real ndarray \<Rightarrow> nat \<Rightarrow> nat \<Rightarrow> real" where
  "sym_sum sd_im i j = pixel_sum sd_im (min i j) (max i j)"

text \<open>Two axis lengths that numpy broadcasts against each other.\<close>

definition compatible :: "nat \<Rightarrow> nat \<Rightarrow> bool" where
  "compatible a b \<longleftrightarrow> a = b \<or> a = 1 \<or> b = 1"

section \<open>Warp sampler\<close>

text \<open>
  \<^verbatim>\<open>
  def interpolate_warp(xi, yi, target, output_shape, spl=None, order=3):
      if not spl:
          h,w = target.shape
          spl = scipy.interpolate.RectBivariateSpline(x=np.arange(h), y=np.arange(w),
                                                      z=target, kx=order, ky=order, s=0)
      values = spl.ev(yi, xi).astype(np.float64)
      warped_ROI = values.reshape(output_shape)
      return warped_ROI
  \<close>
  The spline library is a parameter: \<open>fit\<close> stands for the constructor
  \<^verbatim>\<open>RectBivariateSpline\<close>, which returns the fitted surface or raises, and a spline is
  the function that \<^verbatim>\<open>ev\<close> evaluates pointwise. \<^verbatim>\<open>ev\<close> broadcasts its two coordinate
  arrays against each other.
\<close>

type_synonym spline = "real \<Rightarrow> real \<Rightarrow> real"

definition interpolate_warp ::
  "(real ndarray \<Rightarrow> nat \<Rightarrow> py_error + spline) \<Rightarrow> real ndarray \<Rightarrow> real ndarray \<Rightarrow>
     real ndarray \<Rightarrow> nat list \<Rightarrow> spline option \<Rightarrow> nat \<Rightarrow> py_error + real ndarray" where
  "interpolate_warp fit xi yi target output_shape spl order =
     ebind (case spl of
              Some s \<Rightarrow> Inr s
            | None \<Rightarrow>
                if length (shape target) \<noteq> 2 then Inl ValueError else fit target order)
       (\<lambda>s. ebind (np_binop s yi xi) (\<lambda>values. np_reshape values output_shape))"

section \<open>Residual and update engine\<close>

text \<open>
  \<^verbatim>\<open>
  def get_error_image(f, f_stats, g):
      f_, sd_f = f_stats
      g_ = np.mean(g)
      sd_g = np.std(g)
      err_im = (f - f_) - sd_f/sd_g * (g - g_)
      return err_im.astype(np.float64)
  \<close>
  The images are float64 arrays and every operation is rounded; \<open>f_stats\<close> is a pair of
  float64 numbers (\<open>f_mean\<close> stands for \<^verbatim>\<open>f_\<close>). The function has no test of \<^verbatim>\<open>sd_g\<close>:
  the division by a zero standard deviation returns an infinity or nan, with a warning
  and no exception. The last subtraction broadcasts and raises ValueError for
  incompatible shapes.
\<close>

definition get_error_image ::
  "fl ndarray \<Rightarrow> fl \<times> fl \<Rightarrow> fl ndarray \<Rightarrow> py_error + fl ndarray" where
  "get_error_image f f_stats g =
     (let f_mean = fst f_stats; sd_f = snd f_stats;
          g_mean = np_mean g;
          sd_g = np_std g;
          ratio = f64_div sd_f sd_g
      in np_binop f64_sub
           (np_map (\<lambda>v. f64_sub v f_mean) f)
           (np_map (\<lambda>v. f64_mul ratio v) (np_map (\<lambda>v. f64_sub v g_mean) g)))"

text \<open>
  \<^verbatim>\<open>
  def warp_update(inv_H, b, warp):
      dp = np.dot(inv_H, b)
      inverse_increment_warp = np.linalg.inv(rigid_transform_matrix(dp))
      updated_warp = np.dot(warp, inverse_increment_warp)
      return updated_warp
  \<close>
\<close>

definition warp_update ::
  "real ndarray \<Rightarrow> real ndarray \<Rightarrow> real ndarray \<Rightarrow> py_error + real ndarray" where
  "warp_update inv_H b warp =
     ebind (np_dot inv_H b) (\<lambda>dp.
       ebind (rigid_transform_matrix dp) (\<lambda>m.
         ebind (np_linalg_inv m) (\<lambda>inverse_increment_warp.
           np_dot warp inverse_increment_warp)))"

section \<open>Properties\<close>

subsection \<open>Arrays\<close>

lemma ebind_simps [simp]: "ebind (Inl e) f = Inl e" "ebind (Inr x) f = f x"
  by (simp_all add: ebind_def)

lemma bshape_rev_same: "bshape_rev xs xs = Some xs"
  by (induction xs) simp_all

lemma broadcast_shapes_same: "broadcast_shapes s s = Some s"
  by (simp add: broadcast_shapes_def bshape_rev_same)

lemma pad_shape_same: "pad_shape (length s) s = s"
  by (simp add: pad_shape_def)

lemma concat_chunks: "length d = n * k \<Longrightarrow> concat (chunks k n d) = d"
proof (induction n arbitrary: d)
  case 0
  then show ?case by (simp add: chunks_def)
next
  case (Suc n)
  have len: "length (drop k d) = n * k" using Suc.prems by simp
  have "chunks k (Suc n) d = take k d # chunks k n (drop k d)"
    by (simp add: chunks_def upt_conv_Cons map_Suc_upt [symmetric] add.commute
        del: upt_Suc)
  then show ?case using Suc.IH [OF len] by simp
qed

lemma chunks_length: "length d = n * k \<Longrightarrow> c \<in> set (chunks k n d) \<Longrightarrow> length c = k"
proof -
  assume len: "length d = n * k" and "c \<in> set (chunks k n d)"
  then obtain i where i: "i < n" and c: "c = take k (drop (i * k) d)"
    by (auto simp: chunks_def)
  from i have "Suc i \<le> n" by simp
  then have "Suc i * k \<le> n * k" by (rule mult_le_mono1)
  then have "k \<le> n * k - i * k" by simp
  then show ?thesis using c len by simp
qed

lemma bcast_same: "length d = prod_list s \<Longrightarrow> bcast s s d = d"
proof (induction s arbitrary: d)
  case Nil
  then show ?case by simp
next
  case (Cons n s)
  have len: "length d = n * prod_list s" using Cons.prems by simp
  have "map (bcast s s) (chunks (prod_list s) n d) = chunks (prod_list s) n d"
    using Cons.IH chunks_length [OF len] by (simp add: map_idI)
  then show ?case using concat_chunks [OF len] by simp
qed

lemma np_binop_same_shape:
  assumes "wf a" and "wf b" and "shape a = shape b"
  shows "np_binop f a b = Inr (Array (shape a) (map2 f (data a) (data b)))"
  using assms
  by (simp add: np_binop_def broadcast_shapes_same pad_shape_same bcast_same wf_def)

lemma wf_np_map: "wf (np_map f a) = wf a"
  by (simp add: wf_def np_map_def)

lemma shape_np_map: "shape (np_map f a) = shape a"
  by (simp add: np_map_def)

lemma wf_np_sub_mean: "wf (np_sub_mean a) = wf a"
  by (simp add: np_sub_mean_def wf_np_map)

lemma shape_np_sub_mean: "shape (np_sub_mean a) = shape a"
  by (simp add: np_sub_mean_def shape_np_map)

lemma index_eq:
  fixes n :: nat
  assumes "b < n" and "d < n" and "a * n + b = c * n + d"
  shows "a = c \<and> b = d"
proof -
  have "(a * n + b) div n = a" using assms(1) by simp
  moreover have "(c * n + d) div n = c" using assms(2) by simp
  ultimately have "a = c" using assms(3) by simp
  then show ?thesis using assms(3) by simp
qed

lemma index_less:
  fixes n :: nat
  assumes "r < m" and "c < n"
  shows "r * n + c < m * n"
proof -
  have "r * n + c < r * n + n" using assms by simp
  also have "\<dots> = Suc r * n" by simp
  also have "\<dots> \<le> m * n" using assms by (intro mult_le_mono1) simp
  finally show ?thesis .
qed

subsection \<open>Rounding to float64\<close>

text \<open>
  The rounding moves a number by at most half a unit in the last place, which is a
  relative error of at most \<open>2^-53\<close> in the normal range; and a rounding is determined
  by an exponent and an integer mantissa that satisfy the bounds of \<open>rnd_eqI\<close>.
\<close>

lemma rhe_error: "\<bar>of_int (rhe q) - q\<bar> \<le> 1 / 2"
proof -
  define f where "f = \<lfloor>q\<rfloor>"
  have "of_int f \<le> q" "q < of_int f + 1" by (simp_all add: f_def)
  then show ?thesis unfolding rhe_def Let_def f_def [symmetric] by auto
qed

lemma rhe_eqI:
  assumes "\<bar>q - of_int n\<bar> < 1 / 2 \<or> (\<bar>q - of_int n\<bar> = 1 / 2 \<and> even n)"
  shows "rhe q = n"
proof -
  consider (ge) "of_int n \<le> q" "q - of_int n < 1 / 2"
    | (lt) "q < of_int n" "of_int n - q < 1 / 2"
    | (tie_up) "q = of_int n + 1 / 2" "even n"
    | (tie_down) "q = of_int n - 1 / 2" "even n"
    using assms by (auto simp: abs_if split: if_splits)
  then show ?thesis
  proof cases
    case ge
    then have "\<lfloor>q\<rfloor> = n" by (intro floor_unique) auto
    then show ?thesis using ge by (simp add: rhe_def)
  next
    case lt
    then have "\<lfloor>q\<rfloor> = n - 1" by (intro floor_unique) auto
    then show ?thesis using lt by (simp add: rhe_def)
  next
    case tie_up
    then have "\<lfloor>q\<rfloor> = n" by (intro floor_unique) auto
    then show ?thesis using tie_up by (simp add: rhe_def)
  next
    case tie_down
    then have "\<lfloor>q\<rfloor> = n - 1" by (intro floor_unique) auto
    then show ?thesis using tie_down by (simp add: rhe_def)
  qed
qed

lemma exp_up_bounds:
  "1 \<le> x \<Longrightarrow> 2 ^ exp_up n x \<le> x \<and> exp_up n x \<le> n \<and> (exp_up n x < n \<longrightarrow> x < 2 * 2 ^ exp_up n x)"
proof (induction n arbitrary: x)
  case 0
  then show ?case by simp
next
  case (Suc n)
  show ?case
  proof (cases "2 \<le> x")
    case True
    then have "1 \<le> x / 2" by simp
    from Suc.IH [OF this] show ?thesis using True by auto
  next
    case False
    then show ?thesis using Suc.prems by simp
  qed
qed

lemma exp_down_bounds:
  "0 \<le> x \<Longrightarrow> x < 2 \<Longrightarrow>
   x * 2 ^ exp_down n x < 2 \<and> exp_down n x \<le> n \<and> (exp_down n x < n \<longrightarrow> 1 \<le> x * 2 ^ exp_down n x)"
proof (induction n arbitrary: x)
  case 0
  then show ?case by simp
next
  case (Suc n)
  show ?case
  proof (cases "x < 1")
    case True
    then have "0 \<le> 2 * x" "2 * x < 2" using Suc.prems by simp_all
    from Suc.IH [OF this] show ?thesis using True by (auto simp: mult.assoc)
  next
    case False
    then show ?thesis using Suc.prems by simp
  qed
qed

lemma f64_exponent_normal:
  assumes "1 / 2 ^ f64_emin \<le> \<bar>x\<bar>" and "\<bar>x\<bar> < 2 * 2 ^ f64_emax"
  shows "- int f64_emin \<le> f64_exponent x \<and> f64_exponent x \<le> int f64_emax \<and>
         2 powi f64_exponent x \<le> \<bar>x\<bar> \<and> \<bar>x\<bar> < 2 * 2 powi f64_exponent x"
proof (cases "1 \<le> \<bar>x\<bar>")
  case True
  define k where "k = exp_up (Suc f64_emax) \<bar>x\<bar>"
  from exp_up_bounds [OF True, of "Suc f64_emax"]
  have b: "2 ^ k \<le> \<bar>x\<bar>" "k < Suc f64_emax \<longrightarrow> \<bar>x\<bar> < 2 * 2 ^ k"
    by (simp_all add: k_def del: exp_up.simps)
  have "(2::real) ^ k < 2 ^ Suc f64_emax" using b(1) assms(2) by simp
  then have "k < Suc f64_emax" by (rule power_less_imp_less_exp [rotated]) simp
  then show ?thesis
    using b True by (simp add: f64_exponent_def k_def [symmetric] del: exp_up.simps)
next
  case False
  define d where "d = exp_down f64_emin \<bar>x\<bar>"
  from False have "0 \<le> \<bar>x\<bar>" "\<bar>x\<bar> < 2" by simp_all
  from exp_down_bounds [OF this, of f64_emin]
  have b: "\<bar>x\<bar> * 2 ^ d < 2" "d \<le> f64_emin" "d < f64_emin \<longrightarrow> 1 \<le> \<bar>x\<bar> * 2 ^ d"
    by (simp_all add: d_def)
  have one: "1 \<le> \<bar>x\<bar> * 2 ^ d"
  proof (cases "d < f64_emin")
    case True
    then show ?thesis using b(3) by simp
  next
    case False
    then have "d = f64_emin" using b(2) by simp
    then show ?thesis using assms(1) by (simp add: field_simps)
  qed
  have p: "(2::real) powi (- int d) = 1 / 2 ^ d"
    by (simp add: power_int_minus_divide)
  have "1 / 2 ^ d \<le> \<bar>x\<bar>" using one by (simp add: field_simps)
  moreover have "\<bar>x\<bar> < 2 * (1 / 2 ^ d)" using b(1) by (simp add: field_simps)
  ultimately show ?thesis
    using b(2) False by (simp add: f64_exponent_def d_def [symmetric] p)
qed

lemma f64_exponent_eqI:
  assumes "- int f64_emin \<le> e" and "e \<le> int f64_emax"
    and "2 powi e \<le> \<bar>x\<bar>" and "\<bar>x\<bar> < 2 * 2 powi e"
  shows "f64_exponent x = e"
proof -
  have "(2::real) powi (- int f64_emin) \<le> 2 powi e"
    using assms(1) by (intro power_int_increasing) simp_all
  then have lo: "1 / 2 ^ f64_emin \<le> \<bar>x\<bar>"
    using assms(3) by (simp add: power_int_minus_divide)
  have "(2::real) powi e \<le> 2 powi int f64_emax"
    using assms(2) by (intro power_int_increasing) simp_all
  then have hi: "\<bar>x\<bar> < 2 * 2 ^ f64_emax" using assms(4) by simp
  define e' where "e' = f64_exponent x"
  from f64_exponent_normal [OF lo hi]
  have b: "2 powi e' \<le> \<bar>x\<bar>" "\<bar>x\<bar> < 2 * 2 powi e'" by (simp_all add: e'_def)
  have two: "2 * (2::real) powi k = 2 powi (k + 1)" for k :: int
    by (simp add: power_int_add)
  have "\<not> e < e'"
  proof
    assume "e < e'"
    then have "(2::real) powi (e + 1) \<le> 2 powi e'" by (intro power_int_increasing) simp_all
    then show False using assms(4) b(1) by (simp add: two)
  qed
  moreover have "\<not> e' < e"
  proof
    assume "e' < e"
    then have "(2::real) powi (e' + 1) \<le> 2 powi e" by (intro power_int_increasing) simp_all
    then show False using assms(3) b(2) by (simp add: two)
  qed
  ultimately show ?thesis by (simp add: e'_def)
qed

lemma f64_exponent_subnormal:
  assumes "\<bar>x\<bar> < 1 / 2 ^ f64_emin"
  shows "f64_exponent x = - int f64_emin"
proof -
  have "1 / (2::real) ^ f64_emin \<le> 1" by simp
  then have lt1: "\<bar>x\<bar> < 1" using assms by linarith
  define d where "d = exp_down f64_emin \<bar>x\<bar>"
  from lt1 have "0 \<le> \<bar>x\<bar>" "\<bar>x\<bar> < 2" by simp_all
  from exp_down_bounds [OF this, of f64_emin]
  have b: "d \<le> f64_emin" "d < f64_emin \<longrightarrow> 1 \<le> \<bar>x\<bar> * 2 ^ d"
    by (simp_all add: d_def)
  have "\<not> d < f64_emin"
  proof
    assume lt: "d < f64_emin"
    then have "1 / 2 ^ d \<le> \<bar>x\<bar>" using b(2) by (simp add: field_simps)
    moreover have "1 / (2::real) ^ f64_emin \<le> 1 / 2 ^ d"
      using lt by (simp add: field_simps power_increasing)
    ultimately show False using assms by linarith
  qed
  then have "d = f64_emin" using b(1) by simp
  then show ?thesis using lt1 by (simp add: f64_exponent_def d_def [symmetric])
qed

lemma rnd_zero: "rnd 0 = Fin 0"
proof -
  have "f64_exponent 0 = - int f64_emin" by (rule f64_exponent_subnormal) simp
  moreover have "rhe 0 = 0" by (rule rhe_eqI) simp
  ultimately show ?thesis by (simp add: rnd_def)
qed

lemma rnd_eqI:
  assumes "- int f64_emin \<le> e" and "e \<le> int f64_emax"
    and "2 powi e \<le> \<bar>x\<bar>" and "\<bar>x\<bar> < 2 * 2 powi e"
    and "\<bar>x / 2 powi (e - 52) - of_int n\<bar> < 1 / 2 \<or>
         (\<bar>x / 2 powi (e - 52) - of_int n\<bar> = 1 / 2 \<and> even n)"
    and "e < int f64_emax \<or> \<bar>n\<bar> < 2 ^ 53"
    and "y = of_int n * 2 powi (e - 52)"
  shows "rnd x = Fin y"
proof -
  have e: "f64_exponent x = e" using assms(1-4) by (rule f64_exponent_eqI)
  have n: "rhe (x / 2 powi (e - 52)) = n" using assms(5) by (rule rhe_eqI)
  have "\<not> (int f64_emax < e \<or> (e = int f64_emax \<and> 2 ^ 53 \<le> \<bar>n\<bar>))"
    using assms(2,6) by auto
  then show ?thesis unfolding rnd_def Let_def e n using assms(7) by auto
qed

lemma rnd_rel_error:
  assumes "1 / 2 ^ f64_emin \<le> \<bar>x\<bar>" and "\<bar>x\<bar> < 2 ^ f64_emax"
  shows "\<exists>d. \<bar>d\<bar> \<le> 1 / 2 ^ 53 \<and> rnd x = Fin (x * (1 + d))"
proof -
  define e where "e = f64_exponent x"
  define u :: real where "u = 2 powi (e - 52)"
  define n where "n = rhe (x / u)"
  have "\<bar>x\<bar> < 2 * 2 ^ f64_emax" using assms(2) by simp
  from f64_exponent_normal [OF assms(1) this]
  have b: "e \<le> int f64_emax" "2 powi e \<le> \<bar>x\<bar>" "\<bar>x\<bar> < 2 * 2 powi e"
    by (simp_all add: e_def)
  have upos: "0 < u" by (simp add: u_def)
  have u: "u * 2 ^ 52 = 2 powi e"
    using power_int_add [of "2::real" "e - 52" 52] by (simp add: u_def)
  have xne: "x \<noteq> 0"
  proof
    assume "x = 0"
    then have "1 / (2::real) ^ f64_emin \<le> 0" using assms(1) by simp
    moreover have "0 < 1 / (2::real) ^ f64_emin" by simp
    ultimately show False by linarith
  qed
  have "e \<noteq> int f64_emax"
  proof
    assume "e = int f64_emax"
    then have "2 ^ f64_emax \<le> \<bar>x\<bar>" using b(2) by simp
    then show False using assms(2) by simp
  qed
  then have fin: "rnd x = Fin (of_int n * u)"
    using b(1) unfolding rnd_def Let_def e_def [symmetric] u_def [symmetric] n_def [symmetric]
    by auto
  have "\<bar>of_int n - x / u\<bar> \<le> 1 / 2" unfolding n_def by (rule rhe_error)
  then have "\<bar>of_int n - x / u\<bar> * u \<le> 1 / 2 * u"
    using upos by (intro mult_right_mono) simp_all
  moreover have "\<bar>of_int n - x / u\<bar> * u = \<bar>of_int n * u - x\<bar>"
  proof -
    have "\<bar>of_int n - x / u\<bar> * u = \<bar>(of_int n - x / u) * u\<bar>"
      using upos by (simp add: abs_mult)
    also have "(of_int n - x / u) * u = of_int n * u - x"
      using upos by (simp add: left_diff_distrib)
    finally show ?thesis .
  qed
  ultimately have err: "\<bar>of_int n * u - x\<bar> \<le> u / 2" by simp
  have "u / 2 = 2 powi e / 2 ^ 53" using u by (simp add: field_simps)
  also have "\<dots> \<le> \<bar>x\<bar> / 2 ^ 53" using b(2) by (simp add: divide_right_mono)
  finally have err': "\<bar>of_int n * u - x\<bar> \<le> \<bar>x\<bar> / 2 ^ 53" using err by simp
  define d where "d = (of_int n * u - x) / x"
  have "\<bar>d\<bar> = \<bar>of_int n * u - x\<bar> / \<bar>x\<bar>" by (simp add: d_def)
  also have "\<dots> \<le> (\<bar>x\<bar> / 2 ^ 53) / \<bar>x\<bar>"
    using err' by (intro divide_right_mono) simp_all
  also have "\<dots> = 1 / 2 ^ 53" using xne by simp
  finally have "\<bar>d\<bar> \<le> 1 / 2 ^ 53" .
  moreover have "x * (1 + d) = of_int n * u" using xne by (simp add: d_def field_simps)
  ultimately show ?thesis using fin by auto
qed

lemma rnd_of_int:
  assumes "\<bar>k\<bar> < 2 ^ 53"
  shows "rnd (of_int k) = Fin (of_int k)"
proof (cases "k = 0")
  case True
  then show ?thesis by (simp add: rnd_zero)
next
  case False
  define x :: real where "x = of_int k"
  have one: "1 \<le> \<bar>x\<bar>" using False by (simp add: x_def flip: of_int_abs)
  have lo: "1 / 2 ^ f64_emin \<le> \<bar>x\<bar>"
  proof -
    have "1 / (2::real) ^ f64_emin \<le> 1" by simp
    then show ?thesis using one by linarith
  qed
  have lt53: "\<bar>x\<bar> < 2 ^ 53"
    using assms unfolding x_def of_int_abs [symmetric] by (metis of_int_less_numeral_power_cancel_iff)
  have "(2::real) ^ 53 \<le> 2 ^ f64_emax"
    by (intro power_increasing) (simp_all add: f64_emax_def)
  then have hi: "\<bar>x\<bar> < 2 * 2 ^ f64_emax" using lt53 by simp
  define e where "e = f64_exponent x"
  from f64_exponent_normal [OF lo hi]
  have b: "- int f64_emin \<le> e" "e \<le> int f64_emax" "2 powi e \<le> \<bar>x\<bar>" "\<bar>x\<bar> < 2 * 2 powi e"
    by (simp_all add: e_def)
  have e0: "0 \<le> e"
  proof (rule ccontr)
    assume "\<not> 0 \<le> e"
    then have "e + 1 \<le> 0" by simp
    then have "(2::real) powi (e + 1) \<le> 2 powi 0" by (intro power_int_increasing) simp_all
    then have "2 * (2::real) powi e \<le> 1" by (simp add: power_int_add)
    then show False using b(4) one by simp
  qed
  have e52: "e \<le> 52"
  proof (rule ccontr)
    assume "\<not> e \<le> 52"
    then have "53 \<le> e" by simp
    then have "(2::real) powi 53 \<le> 2 powi e" by (intro power_int_increasing) simp_all
    then show False using b(3) lt53 by simp
  qed
  define j where "j = nat (52 - e)"
  have u: "(2::real) powi (e - 52) = 1 / 2 ^ j"
    using e52 by (simp add: j_def power_int_def power_divide)
  have q: "x / 2 powi (e - 52) = of_int (k * 2 ^ j)" by (simp add: u x_def)
  have "e < int f64_emax" using e52 by (simp add: f64_emax_def)
  then have "rnd x = Fin (of_int (k * 2 ^ j) * 2 powi (e - 52))"
    using b by (intro rnd_eqI [where e = e and n = "k * 2 ^ j"]) (simp_all add: q)
  then show ?thesis by (simp add: u x_def)
qed

lemma rnd_numeral [simp]: "numeral n < (2 :: int) ^ 53 \<Longrightarrow> rnd (numeral n) = Fin (numeral n)"
  using rnd_of_int [of "numeral n"] by simp

lemma rnd_one [simp]: "rnd 1 = Fin 1"
  using rnd_of_int [of 1] by simp

lemma pairwise_sum_small: "length a < 8 \<Longrightarrow> pairwise_sum a = foldl f64_add (Fin 0) a"
  by (simp add: pairwise_sum.simps)

text \<open>
  Certificate rules: the result of one operation on finite operands, from the exponent
  \<open>e\<close> and the mantissa \<open>n\<close> of the rounded result.
\<close>

lemma f64_sqrt_eqI:
  assumes "- int f64_emin \<le> e" and "e < int f64_emax" and "0 < n"
    and "(2 powi e)\<^sup>2 \<le> v" and "v < (2 * 2 powi e)\<^sup>2"
    and "((of_int n - 1 / 2) * 2 powi (e - 52))\<^sup>2 < v"
    and "v < ((of_int n + 1 / 2) * 2 powi (e - 52))\<^sup>2"
    and "y = of_int n * 2 powi (e - 52)"
  shows "f64_sqrt (Fin v) = Fin y"
proof -
  define u :: real where "u = 2 powi (e - 52)"
  have u: "0 < u" by (simp add: u_def)
  have p: "0 < (2::real) powi e" by simp
  have v0: "0 \<le> v" using assms(4) zero_le_power2 [of "(2::real) powi e"] by linarith
  have lo: "2 powi e \<le> sqrt v" using assms(4) by (rule real_le_rsqrt)
  have hi: "sqrt v < 2 * 2 powi e" using assms(5) p by (intro real_less_lsqrt) simp_all
  have a: "(of_int n - 1 / 2) * u < sqrt v"
    using assms(6) unfolding u_def by (rule real_less_rsqrt)
  have "0 \<le> (of_int n + 1 / 2) * u" using assms(3) u by simp
  then have b: "sqrt v < (of_int n + 1 / 2) * u"
    using assms(7) unfolding u_def by (intro real_less_lsqrt) simp_all
  have "of_int n - 1 / 2 < sqrt v / u" using a u by (simp add: field_simps)
  moreover have "sqrt v / u < of_int n + 1 / 2" using b u by (simp add: field_simps)
  ultimately have c: "\<bar>sqrt v / u - of_int n\<bar> < 1 / 2" by linarith
  have pos: "0 < sqrt v" using lo p by linarith
  have "rnd (sqrt v) = Fin y"
  proof (rule rnd_eqI [where e = e and n = n])
    show "- int f64_emin \<le> e" by (rule assms(1))
    show "e \<le> int f64_emax" using assms(2) by simp
    show "2 powi e \<le> \<bar>sqrt v\<bar>" using lo pos by simp
    show "\<bar>sqrt v\<bar> < 2 * 2 powi e" using hi pos by simp
    show "\<bar>sqrt v / 2 powi (e - 52) - of_int n\<bar> < 1 / 2 \<or>
          \<bar>sqrt v / 2 powi (e - 52) - of_int n\<bar> = 1 / 2 \<and> even n"
      using c by (simp add: u_def)
    show "e < int f64_emax \<or> \<bar>n\<bar> < 2 ^ 53" using assms(2) by simp
    show "y = of_int n * 2 powi (e - 52)" by (rule assms(8))
  qed
  then show ?thesis using v0 by simp
qed

lemma f64_add_eqI:
  assumes "- int f64_emin \<le> e" and "e \<le> int f64_emax"
    and "2 powi e \<le> \<bar>a + b\<bar>" and "\<bar>a + b\<bar> < 2 * 2 powi e"
    and "\<bar>(a + b) / 2 powi (e - 52) - of_int n\<bar> < 1 / 2 \<or>
         \<bar>(a + b) / 2 powi (e - 52) - of_int n\<bar> = 1 / 2 \<and> even n"
    and "e < int f64_emax \<or> \<bar>n\<bar> < 2 ^ 53"
    and "y = of_int n * 2 powi (e - 52)"
  shows "f64_add (Fin a) (Fin b) = Fin y"
  using rnd_eqI [OF assms(1-7)] by (simp add: f64_add_def)

lemma f64_sub_eqI:
  assumes "- int f64_emin \<le> e" and "e \<le> int f64_emax"
    and "2 powi e \<le> \<bar>a - b\<bar>" and "\<bar>a - b\<bar> < 2 * 2 powi e"
    and "\<bar>(a - b) / 2 powi (e - 52) - of_int n\<bar> < 1 / 2 \<or>
         \<bar>(a - b) / 2 powi (e - 52) - of_int n\<bar> = 1 / 2 \<and> even n"
    and "e < int f64_emax \<or> \<bar>n\<bar> < 2 ^ 53"
    and "y = of_int n * 2 powi (e - 52)"
  shows "f64_sub (Fin a) (Fin b) = Fin y"
  using rnd_eqI [OF assms(1-7)] by (simp add: f64_sub_def fsub_def)

lemma f64_mul_eqI:
  assumes "- int f64_emin \<le> e" and "e \<le> int f64_emax"
    and "2 powi e \<le> \<bar>a * b\<bar>" and "\<bar>a * b\<bar> < 2 * 2 powi e"
    and "\<bar>(a * b) / 2 powi (e - 52) - of_int n\<bar> < 1 / 2 \<or>
         \<bar>(a * b) / 2 powi (e - 52) - of_int n\<bar> = 1 / 2 \<and> even n"
    and "e < int f64_emax \<or> \<bar>n\<bar> < 2 ^ 53"
    and "y = of_int n * 2 powi (e - 52)"
  shows "f64_mul (Fin a) (Fin b) = Fin y"
  using rnd_eqI [OF assms(1-7)] by (simp add: f64_mul_def)

lemma f64_div_eqI:
  assumes "- int f64_emin \<le> e" and "e \<le> int f64_emax"
    and "2 powi e \<le> \<bar>a / b\<bar>" and "\<bar>a / b\<bar> < 2 * 2 powi e"
    and "\<bar>(a / b) / 2 powi (e - 52) - of_int n\<bar> < 1 / 2 \<or>
         \<bar>(a / b) / 2 powi (e - 52) - of_int n\<bar> = 1 / 2 \<and> even n"
    and "e < int f64_emax \<or> \<bar>n\<bar> < 2 ^ 53"
    and "y = of_int n * 2 powi (e - 52)" and "b \<noteq> 0"
  shows "f64_div (Fin a) (Fin b) = Fin y"
  using rnd_eqI [OF assms(1-7)] assms(8) by (simp add: f64_div_def)

lemma tenth_1: "f64_add (Fin (0)) (Fin (3602879701896397 / 36028797018963968)) = Fin (3602879701896397 / 36028797018963968)"
  by (rule f64_add_eqI [where e = "-4" and n = "7205759403792794"]; simp add: f64_emin_def f64_emax_def)

lemma tenth_2: "f64_add (Fin (3602879701896397 / 36028797018963968)) (Fin (3602879701896397 / 36028797018963968)) = Fin (3602879701896397 / 18014398509481984)"
  by (rule f64_add_eqI [where e = "-3" and n = "7205759403792794"]; simp add: f64_emin_def f64_emax_def)

lemma tenth_3: "f64_add (Fin (3602879701896397 / 18014398509481984)) (Fin (3602879701896397 / 36028797018963968)) = Fin (1351079888211149 / 4503599627370496)"
  by (rule f64_add_eqI [where e = "-2" and n = "5404319552844596"]; simp add: f64_emin_def f64_emax_def)

lemma tenth_4: "f64_div (Fin (1351079888211149 / 4503599627370496)) (Fin (3)) = Fin (7205759403792795 / 72057594037927936)"
  by (rule f64_div_eqI [where e = "-4" and n = "7205759403792795"]; simp add: f64_emin_def f64_emax_def)

lemma tenth_5: "f64_sub (Fin (3602879701896397 / 36028797018963968)) (Fin (7205759403792795 / 72057594037927936)) = Fin (- (1 / 72057594037927936))"
  by (rule f64_sub_eqI [where e = "-56" and n = "-4503599627370496"]; simp add: f64_emin_def f64_emax_def)

lemma tenth_6: "f64_mul (Fin (- (1 / 72057594037927936))) (Fin (- (1 / 72057594037927936))) = Fin (1 / 5192296858534827628530496329220096)"
  by (rule f64_mul_eqI [where e = "-112" and n = "4503599627370496"]; simp add: f64_emin_def f64_emax_def)

lemma tenth_7: "f64_add (Fin (0)) (Fin (1 / 5192296858534827628530496329220096)) = Fin (1 / 5192296858534827628530496329220096)"
  by (rule f64_add_eqI [where e = "-112" and n = "4503599627370496"]; simp add: f64_emin_def f64_emax_def)

lemma tenth_8: "f64_add (Fin (1 / 5192296858534827628530496329220096)) (Fin (1 / 5192296858534827628530496329220096)) = Fin (1 / 2596148429267413814265248164610048)"
  by (rule f64_add_eqI [where e = "-111" and n = "4503599627370496"]; simp add: f64_emin_def f64_emax_def)

lemma tenth_9: "f64_add (Fin (1 / 2596148429267413814265248164610048)) (Fin (1 / 5192296858534827628530496329220096)) = Fin (3 / 5192296858534827628530496329220096)"
  by (rule f64_add_eqI [where e = "-111" and n = "6755399441055744"]; simp add: f64_emin_def f64_emax_def)

lemma tenth_10: "f64_div (Fin (3 / 5192296858534827628530496329220096)) (Fin (3)) = Fin (1 / 5192296858534827628530496329220096)"
  by (rule f64_div_eqI [where e = "-112" and n = "4503599627370496"]; simp add: f64_emin_def f64_emax_def)

lemma tenth_11: "f64_sqrt (Fin (1 / 5192296858534827628530496329220096)) = Fin (1 / 72057594037927936)"
  by (rule f64_sqrt_eqI [where e = "-56" and n = "4503599627370496"]; simp add: f64_emin_def f64_emax_def power2_eq_square)

lemma tenth_12: "f64_mul (Fin (1 / 72057594037927936)) (Fin (1 / 72057594037927936)) = Fin (1 / 5192296858534827628530496329220096)"
  by (rule f64_mul_eqI [where e = "-112" and n = "4503599627370496"]; simp add: f64_emin_def f64_emax_def)

lemma tenth_13: "f64_div (Fin (1 / 5192296858534827628530496329220096)) (Fin (1 / 5192296858534827628530496329220096)) = Fin (1)"
  by (rule f64_div_eqI [where e = "0" and n = "4503599627370496"]; simp add: f64_emin_def f64_emax_def)

subsection \<open>Operations on concrete operands\<close>

text \<open>
  The float64 operations that occur when the statistics and the correlation of the
  images used below are computed, each with its certificate, followed by the mean,
  variance and standard deviation of these images.
\<close>

lemma rnd_tenth: "rnd (1 / 10) = Fin f64_tenth"
  by (rule rnd_eqI [where e = "-4" and n = "7205759403792794"];
      simp add: f64_emin_def f64_emax_def)

lemma f64_step_1:
  "f64_add (Fin 0) (Fin 5) = Fin 5"
  by (rule f64_add_eqI [where e = "2" and n = "5629499534213120"];
      simp add: f64_emin_def f64_emax_def)

lemma f64_step_2:
  "f64_add (Fin 5) (Fin 5) = Fin 10"
  by (rule f64_add_eqI [where e = "3" and n = "5629499534213120"];
      simp add: f64_emin_def f64_emax_def)

lemma f64_step_3:
  "f64_div (Fin 10) (Fin 2) = Fin 5"
  by (rule f64_div_eqI [where e = "2" and n = "5629499534213120"];
      simp add: f64_emin_def f64_emax_def)

lemma f64_step_4:
  "f64_sub (Fin 5) (Fin 5) = Fin 0"
  by (simp add: f64_sub_def fsub_def rnd_zero)

lemma f64_step_5:
  "f64_mul (Fin 0) (Fin 0) = Fin 0"
  by (simp add: f64_mul_def rnd_zero)

lemma f64_step_6:
  "f64_add (Fin 0) (Fin 0) = Fin 0"
  by (simp add: f64_add_def rnd_zero)

lemma f64_step_7:
  "f64_div (Fin 0) (Fin 2) = Fin 0"
  by (simp add: f64_div_def rnd_zero)

lemma f64_step_8:
  "f64_sqrt (Fin 0) = Fin 0"
  by (simp add: rnd_zero)

lemma f64_step_9:
  "f64_add (Fin 0) (Fin 1) = Fin 1"
  by (rule f64_add_eqI [where e = "0" and n = "4503599627370496"];
      simp add: f64_emin_def f64_emax_def)

lemma f64_step_10:
  "f64_add (Fin 1) (Fin 3) = Fin 4"
  by (rule f64_add_eqI [where e = "2" and n = "4503599627370496"];
      simp add: f64_emin_def f64_emax_def)

lemma f64_step_11:
  "f64_div (Fin 4) (Fin 2) = Fin 2"
  by (rule f64_div_eqI [where e = "1" and n = "4503599627370496"];
      simp add: f64_emin_def f64_emax_def)

lemma f64_step_12:
  "f64_sub (Fin 1) (Fin 2) = Fin (- 1)"
  by (rule f64_sub_eqI [where e = "0" and n = "-4503599627370496"];
      simp add: f64_emin_def f64_emax_def)

lemma f64_step_13:
  "f64_sub (Fin 3) (Fin 2) = Fin 1"
  by (rule f64_sub_eqI [where e = "0" and n = "4503599627370496"];
      simp add: f64_emin_def f64_emax_def)

lemma f64_step_14:
  "f64_mul (Fin (- 1)) (Fin (- 1)) = Fin 1"
  by (rule f64_mul_eqI [where e = "0" and n = "4503599627370496"];
      simp add: f64_emin_def f64_emax_def)

lemma f64_step_15:
  "f64_mul (Fin 1) (Fin 1) = Fin 1"
  by (rule f64_mul_eqI [where e = "0" and n = "4503599627370496"];
      simp add: f64_emin_def f64_emax_def)

lemma f64_step_16:
  "f64_add (Fin 1) (Fin 1) = Fin 2"
  by (rule f64_add_eqI [where e = "1" and n = "4503599627370496"];
      simp add: f64_emin_def f64_emax_def)

lemma f64_step_17:
  "f64_div (Fin 2) (Fin 2) = Fin 1"
  by (rule f64_div_eqI [where e = "0" and n = "4503599627370496"];
      simp add: f64_emin_def f64_emax_def)

lemma f64_step_18:
  "f64_sqrt (Fin 1) = Fin 1"
  by (rule f64_sqrt_eqI [where e = "0" and n = "4503599627370496"];
      simp add: f64_emin_def f64_emax_def power2_eq_square)

lemma f64_step_19:
  "f64_add (Fin 0) (Fin 7) = Fin 7"
  by (rule f64_add_eqI [where e = "2" and n = "7881299347898368"];
      simp add: f64_emin_def f64_emax_def)

lemma f64_step_20:
  "f64_add (Fin 7) (Fin 7) = Fin 14"
  by (rule f64_add_eqI [where e = "3" and n = "7881299347898368"];
      simp add: f64_emin_def f64_emax_def)

lemma f64_step_21:
  "f64_add (Fin 14) (Fin 7) = Fin 21"
  by (rule f64_add_eqI [where e = "4" and n = "5910974510923776"];
      simp add: f64_emin_def f64_emax_def)

lemma f64_step_22:
  "f64_add (Fin 21) (Fin 7) = Fin 28"
  by (rule f64_add_eqI [where e = "4" and n = "7881299347898368"];
      simp add: f64_emin_def f64_emax_def)

lemma f64_step_23:
  "f64_div (Fin 28) (Fin 4) = Fin 7"
  by (rule f64_div_eqI [where e = "2" and n = "7881299347898368"];
      simp add: f64_emin_def f64_emax_def)

lemma f64_step_24:
  "f64_sub (Fin 7) (Fin 7) = Fin 0"
  by (simp add: f64_sub_def fsub_def rnd_zero)

lemma f64_step_25:
  "f64_div (Fin 0) (Fin 4) = Fin 0"
  by (simp add: f64_div_def rnd_zero)

lemma f64_step_26:
  "f64_add (Fin 0) (Fin (3602879701896397 / 36028797018963968)) =
   Fin (3602879701896397 / 36028797018963968)"
  by (rule f64_add_eqI [where e = "-4" and n = "7205759403792794"];
      simp add: f64_emin_def f64_emax_def)

lemma f64_step_27:
  "f64_add (Fin (3602879701896397 / 36028797018963968)) (Fin (3602879701896397 / 36028797018963968)) =
   Fin (3602879701896397 / 18014398509481984)"
  by (rule f64_add_eqI [where e = "-3" and n = "7205759403792794"];
      simp add: f64_emin_def f64_emax_def)

lemma f64_step_28:
  "f64_add (Fin (3602879701896397 / 18014398509481984)) (Fin (3602879701896397 / 36028797018963968)) =
   Fin (1351079888211149 / 4503599627370496)"
  by (rule f64_add_eqI [where e = "-2" and n = "5404319552844596"];
      simp add: f64_emin_def f64_emax_def)

lemma f64_step_29:
  "f64_div (Fin (1351079888211149 / 4503599627370496)) (Fin 3) =
   Fin (7205759403792795 / 72057594037927936)"
  by (rule f64_div_eqI [where e = "-4" and n = "7205759403792795"];
      simp add: f64_emin_def f64_emax_def)

lemma f64_step_30:
  "f64_sub (Fin (3602879701896397 / 36028797018963968)) (Fin (7205759403792795 / 72057594037927936)) =
   Fin (- (1 / 72057594037927936))"
  by (rule f64_sub_eqI [where e = "-56" and n = "-4503599627370496"];
      simp add: f64_emin_def f64_emax_def)

lemma f64_step_31:
  "f64_mul (Fin (- (1 / 72057594037927936))) (Fin (- (1 / 72057594037927936))) =
   Fin (1 / 5192296858534827628530496329220096)"
  by (rule f64_mul_eqI [where e = "-112" and n = "4503599627370496"];
      simp add: f64_emin_def f64_emax_def)

lemma f64_step_32:
  "f64_add (Fin 0) (Fin (1 / 5192296858534827628530496329220096)) =
   Fin (1 / 5192296858534827628530496329220096)"
  by (rule f64_add_eqI [where e = "-112" and n = "4503599627370496"];
      simp add: f64_emin_def f64_emax_def)

lemma f64_step_33:
  "f64_add (Fin (1 / 5192296858534827628530496329220096)) (Fin (1 / 5192296858534827628530496329220096)) =
   Fin (1 / 2596148429267413814265248164610048)"
  by (rule f64_add_eqI [where e = "-111" and n = "4503599627370496"];
      simp add: f64_emin_def f64_emax_def)

lemma f64_step_34:
  "f64_add (Fin (1 / 2596148429267413814265248164610048)) (Fin (1 / 5192296858534827628530496329220096)) =
   Fin (3 / 5192296858534827628530496329220096)"
  by (rule f64_add_eqI [where e = "-111" and n = "6755399441055744"];
      simp add: f64_emin_def f64_emax_def)

lemma f64_step_35:
  "f64_div (Fin (3 / 5192296858534827628530496329220096)) (Fin 3) =
   Fin (1 / 5192296858534827628530496329220096)"
  by (rule f64_div_eqI [where e = "-112" and n = "4503599627370496"];
      simp add: f64_emin_def f64_emax_def)

lemma f64_step_36:
  "f64_sqrt (Fin (1 / 5192296858534827628530496329220096)) =
   Fin (1 / 72057594037927936)"
  by (rule f64_sqrt_eqI [where e = "-56" and n = "4503599627370496"];
      simp add: f64_emin_def f64_emax_def power2_eq_square)

lemma f64_step_37:
  "f64_add (Fin 1) (Fin 2) = Fin 3"
  by (rule f64_add_eqI [where e = "1" and n = "6755399441055744"];
      simp add: f64_emin_def f64_emax_def)

lemma f64_step_38:
  "f64_add (Fin 3) (Fin 4) = Fin 7"
  by (rule f64_add_eqI [where e = "2" and n = "7881299347898368"];
      simp add: f64_emin_def f64_emax_def)

lemma f64_step_39:
  "f64_div (Fin 7) (Fin 3) = Fin (5254199565265579 / 2251799813685248)"
  by (rule f64_div_eqI [where e = "1" and n = "5254199565265579"];
      simp add: f64_emin_def f64_emax_def)

lemma f64_step_40:
  "f64_sub (Fin 1) (Fin (5254199565265579 / 2251799813685248)) =
   Fin (- (3002399751580331 / 2251799813685248))"
  by (rule f64_sub_eqI [where e = "0" and n = "-6004799503160662"];
      simp add: f64_emin_def f64_emax_def)

lemma f64_step_41:
  "f64_sub (Fin 2) (Fin (5254199565265579 / 2251799813685248)) =
   Fin (- (750599937895083 / 2251799813685248))"
  by (rule f64_sub_eqI [where e = "-2" and n = "-6004799503160664"];
      simp add: f64_emin_def f64_emax_def)

lemma f64_step_42:
  "f64_sub (Fin 4) (Fin (5254199565265579 / 2251799813685248)) =
   Fin (3752999689475413 / 2251799813685248)"
  by (rule f64_sub_eqI [where e = "0" and n = "7505999378950826"];
      simp add: f64_emin_def f64_emax_def)

lemma f64_step_43:
  "f64_mul (Fin (- (3002399751580331 / 2251799813685248))) (Fin (- (3002399751580331 / 2251799813685248))) =
   Fin (4003199668773775 / 2251799813685248)"
  by (rule f64_mul_eqI [where e = "0" and n = "8006399337547550"];
      simp add: f64_emin_def f64_emax_def)

lemma f64_step_44:
  "f64_mul (Fin (- (750599937895083 / 2251799813685248))) (Fin (- (750599937895083 / 2251799813685248))) =
   Fin (2001599834386889 / 18014398509481984)"
  by (rule f64_mul_eqI [where e = "-4" and n = "8006399337547556"];
      simp add: f64_emin_def f64_emax_def)

lemma f64_step_45:
  "f64_mul (Fin (3752999689475413 / 2251799813685248)) (Fin (3752999689475413 / 2251799813685248)) =
   Fin (6254999482459021 / 2251799813685248)"
  by (rule f64_mul_eqI [where e = "1" and n = "6254999482459021"];
      simp add: f64_emin_def f64_emax_def)

lemma f64_step_46:
  "f64_add (Fin 0) (Fin (4003199668773775 / 2251799813685248)) =
   Fin (4003199668773775 / 2251799813685248)"
  by (rule f64_add_eqI [where e = "0" and n = "8006399337547550"];
      simp add: f64_emin_def f64_emax_def)

lemma f64_step_47:
  "f64_add (Fin (4003199668773775 / 2251799813685248)) (Fin (2001599834386889 / 18014398509481984)) =
   Fin (531674956009017 / 281474976710656)"
  by (rule f64_add_eqI [where e = "0" and n = "8506799296144272"];
      simp add: f64_emin_def f64_emax_def)

lemma f64_step_48:
  "f64_add (Fin (531674956009017 / 281474976710656)) (Fin (6254999482459021 / 2251799813685248)) =
   Fin (2627099782632789 / 562949953421312)"
  by (rule f64_add_eqI [where e = "2" and n = "5254199565265578"];
      simp add: f64_emin_def f64_emax_def)

lemma f64_step_49:
  "f64_div (Fin (2627099782632789 / 562949953421312)) (Fin 3) =
   Fin (875699927544263 / 562949953421312)"
  by (rule f64_div_eqI [where e = "0" and n = "7005599420354104"];
      simp add: f64_emin_def f64_emax_def)

lemma f64_step_50:
  "f64_sqrt (Fin (875699927544263 / 562949953421312)) =
   Fin (5616975604274395 / 4503599627370496)"
  by (rule f64_sqrt_eqI [where e = "0" and n = "5616975604274395"];
      simp add: f64_emin_def f64_emax_def power2_eq_square)

lemma f64_step_51:
  "f64_div (Fin 1) (Fin 3) = Fin (6004799503160661 / 18014398509481984)"
  by (rule f64_div_eqI [where e = "-2" and n = "6004799503160661"];
      simp add: f64_emin_def f64_emax_def)

lemma f64_step_52:
  "f64_sub (Fin 0) (Fin (6004799503160661 / 18014398509481984)) =
   Fin (- (6004799503160661 / 18014398509481984))"
  by (rule f64_sub_eqI [where e = "-2" and n = "-6004799503160661"];
      simp add: f64_emin_def f64_emax_def)

lemma f64_step_53:
  "f64_sub (Fin 1) (Fin (6004799503160661 / 18014398509481984)) =
   Fin (3002399751580331 / 4503599627370496)"
  by (rule f64_sub_eqI [where e = "-1" and n = "6004799503160662"];
      simp add: f64_emin_def f64_emax_def)

lemma f64_step_54:
  "f64_mul (Fin (- (6004799503160661 / 18014398509481984))) (Fin (- (6004799503160661 / 18014398509481984))) =
   Fin (2001599834386887 / 18014398509481984)"
  by (rule f64_mul_eqI [where e = "-4" and n = "8006399337547548"];
      simp add: f64_emin_def f64_emax_def)

lemma f64_step_55:
  "f64_mul (Fin (3002399751580331 / 4503599627370496)) (Fin (3002399751580331 / 4503599627370496)) =
   Fin (4003199668773775 / 9007199254740992)"
  by (rule f64_mul_eqI [where e = "-2" and n = "8006399337547550"];
      simp add: f64_emin_def f64_emax_def)

lemma f64_step_56:
  "f64_add (Fin 0) (Fin (2001599834386887 / 18014398509481984)) =
   Fin (2001599834386887 / 18014398509481984)"
  by (rule f64_add_eqI [where e = "-4" and n = "8006399337547548"];
      simp add: f64_emin_def f64_emax_def)

lemma f64_step_57:
  "f64_add (Fin (2001599834386887 / 18014398509481984)) (Fin (2001599834386887 / 18014398509481984)) =
   Fin (2001599834386887 / 9007199254740992)"
  by (rule f64_add_eqI [where e = "-3" and n = "8006399337547548"];
      simp add: f64_emin_def f64_emax_def)

lemma f64_step_58:
  "f64_add (Fin (2001599834386887 / 9007199254740992)) (Fin (4003199668773775 / 9007199254740992)) =
   Fin (3002399751580331 / 4503599627370496)"
  by (rule f64_add_eqI [where e = "-1" and n = "6004799503160662"];
      simp add: f64_emin_def f64_emax_def)

lemma f64_step_59:
  "f64_div (Fin (3002399751580331 / 4503599627370496)) (Fin 3) =
   Fin (8006399337547549 / 36028797018963968)"
  by (rule f64_div_eqI [where e = "-3" and n = "8006399337547549"];
      simp add: f64_emin_def f64_emax_def)

lemma f64_step_60:
  "f64_sqrt (Fin (8006399337547549 / 36028797018963968)) =
   Fin (4246034448350515 / 9007199254740992)"
  by (rule f64_sqrt_eqI [where e = "-2" and n = "8492068896701030"];
      simp add: f64_emin_def f64_emax_def power2_eq_square)

lemma f64_step_61:
  "f64_mul (Fin (- (1 / 72057594037927936))) (Fin (- (3002399751580331 / 2251799813685248))) =
   Fin (3002399751580331 / 162259276829213363391578010288128)"
  by (rule f64_mul_eqI [where e = "-56" and n = "6004799503160662"];
      simp add: f64_emin_def f64_emax_def)

lemma f64_step_62:
  "f64_mul (Fin (- (1 / 72057594037927936))) (Fin (- (750599937895083 / 2251799813685248))) =
   Fin (750599937895083 / 162259276829213363391578010288128)"
  by (rule f64_mul_eqI [where e = "-58" and n = "6004799503160664"];
      simp add: f64_emin_def f64_emax_def)

lemma f64_step_63:
  "f64_mul (Fin (- (1 / 72057594037927936))) (Fin (3752999689475413 / 2251799813685248)) =
   Fin (- (3752999689475413 / 162259276829213363391578010288128))"
  by (rule f64_mul_eqI [where e = "-56" and n = "-7505999378950826"];
      simp add: f64_emin_def f64_emax_def)

lemma f64_step_64:
  "f64_add (Fin 0) (Fin (3002399751580331 / 162259276829213363391578010288128)) =
   Fin (3002399751580331 / 162259276829213363391578010288128)"
  by (rule f64_add_eqI [where e = "-56" and n = "6004799503160662"];
      simp add: f64_emin_def f64_emax_def)

lemma f64_step_65:
  "f64_add (Fin (3002399751580331 / 162259276829213363391578010288128)) (Fin (750599937895083 / 162259276829213363391578010288128)) =
   Fin (1876499844737707 / 81129638414606681695789005144064)"
  by (rule f64_add_eqI [where e = "-56" and n = "7505999378950828"];
      simp add: f64_emin_def f64_emax_def)

lemma f64_step_66:
  "f64_add (Fin (1876499844737707 / 81129638414606681695789005144064)) (Fin (- (3752999689475413 / 162259276829213363391578010288128))) =
   Fin (1 / 162259276829213363391578010288128)"
  by (rule f64_add_eqI [where e = "-107" and n = "4503599627370496"];
      simp add: f64_emin_def f64_emax_def)

lemma f64_step_67:
  "f64_div (Fin (1 / 162259276829213363391578010288128)) (Fin 3) =
   Fin (6004799503160661 / 2923003274661805836407369665432566039311865085952)"
  by (rule f64_div_eqI [where e = "-109" and n = "6004799503160661"];
      simp add: f64_emin_def f64_emax_def)

lemma f64_step_68:
  "f64_mul (Fin (1 / 72057594037927936)) (Fin (5616975604274395 / 4503599627370496)) =
   Fin (5616975604274395 / 324518553658426726783156020576256)"
  by (rule f64_mul_eqI [where e = "-56" and n = "5616975604274395"];
      simp add: f64_emin_def f64_emax_def)

lemma f64_step_69:
  "f64_div (Fin (6004799503160661 / 2923003274661805836407369665432566039311865085952)) (Fin (5616975604274395 / 324518553658426726783156020576256)) =
   Fin (2407275258974741 / 20282409603651670423947251286016)"
  by (rule f64_div_eqI [where e = "-53" and n = "4814550517949482"];
      simp add: f64_emin_def f64_emax_def)

lemma f64_step_70:
  "f64_mul (Fin (4246034448350515 / 9007199254740992)) (Fin (4246034448350515 / 9007199254740992)) =
   Fin (2001599834386887 / 9007199254740992)"
  by (rule f64_mul_eqI [where e = "-3" and n = "8006399337547548"];
      simp add: f64_emin_def f64_emax_def)

lemma f64_step_71:
  "f64_div (Fin (8006399337547549 / 36028797018963968)) (Fin (2001599834386887 / 9007199254740992)) =
   Fin (4503599627370497 / 4503599627370496)"
  by (rule f64_div_eqI [where e = "0" and n = "4503599627370497"];
      simp add: f64_emin_def f64_emax_def)

lemmas f64_steps =
  f64_step_1 f64_step_2 f64_step_3 f64_step_4 f64_step_5 f64_step_6
  f64_step_7 f64_step_8 f64_step_9 f64_step_10 f64_step_11 f64_step_12
  f64_step_13 f64_step_14 f64_step_15 f64_step_16 f64_step_17 f64_step_18
  f64_step_19 f64_step_20 f64_step_21 f64_step_22 f64_step_23 f64_step_24
  f64_step_25 f64_step_26 f64_step_27 f64_step_28 f64_step_29 f64_step_30
  f64_step_31 f64_step_32 f64_step_33 f64_step_34 f64_step_35 f64_step_36
  f64_step_37 f64_step_38 f64_step_39 f64_step_40 f64_step_41 f64_step_42
  f64_step_43 f64_step_44 f64_step_45 f64_step_46 f64_step_47 f64_step_48
  f64_step_49 f64_step_50 f64_step_51 f64_step_52 f64_step_53 f64_step_54
  f64_step_55 f64_step_56 f64_step_57 f64_step_58 f64_step_59 f64_step_60
  f64_step_61 f64_step_62 f64_step_63 f64_step_64 f64_step_65 f64_step_66
  f64_step_67 f64_step_68 f64_step_69 f64_step_70 f64_step_71

lemma np_mean_five:
  "np_mean (Array s [Fin 5, Fin 5]) =
   Fin 5"
  by (simp add: np_mean_def pairwise_sum_small f64_steps)

lemma np_var_five:
  "np_var (Array s [Fin 5, Fin 5]) =
   Fin 0"
  by (simp add: np_var_def Let_def np_mean_five pairwise_sum_small f64_steps)

lemma np_std_five:
  "np_std (Array s [Fin 5, Fin 5]) =
   Fin 0"
  by (simp add: np_std_def np_var_five f64_steps del: f64_sqrt.simps)

lemma np_mean_pair:
  "np_mean (Array s [Fin 1, Fin 3]) =
   Fin 2"
  by (simp add: np_mean_def pairwise_sum_small f64_steps)

lemma np_var_pair:
  "np_var (Array s [Fin 1, Fin 3]) =
   Fin 1"
  by (simp add: np_var_def Let_def np_mean_pair pairwise_sum_small f64_steps)

lemma np_std_pair:
  "np_std (Array s [Fin 1, Fin 3]) =
   Fin 1"
  by (simp add: np_std_def np_var_pair f64_steps del: f64_sqrt.simps)

lemma np_mean_seven:
  "np_mean (Array s [Fin 7, Fin 7, Fin 7, Fin 7]) =
   Fin 7"
  by (simp add: np_mean_def pairwise_sum_small f64_steps)

lemma np_var_seven:
  "np_var (Array s [Fin 7, Fin 7, Fin 7, Fin 7]) =
   Fin 0"
  by (simp add: np_var_def Let_def np_mean_seven pairwise_sum_small f64_steps)

lemma np_std_seven:
  "np_std (Array s [Fin 7, Fin 7, Fin 7, Fin 7]) =
   Fin 0"
  by (simp add: np_std_def np_var_seven f64_steps del: f64_sqrt.simps)

lemma np_mean_tenth:
  "np_mean (Array s [Fin f64_tenth, Fin f64_tenth, Fin f64_tenth]) =
   Fin (7205759403792795 / 72057594037927936)"
  by (simp add: np_mean_def pairwise_sum_small f64_steps)

lemma np_var_tenth:
  "np_var (Array s [Fin f64_tenth, Fin f64_tenth, Fin f64_tenth]) =
   Fin (1 / 5192296858534827628530496329220096)"
  by (simp add: np_var_def Let_def np_mean_tenth pairwise_sum_small f64_steps)

lemma np_std_tenth:
  "np_std (Array s [Fin f64_tenth, Fin f64_tenth, Fin f64_tenth]) =
   Fin (1 / 72057594037927936)"
  by (simp add: np_std_def np_var_tenth f64_steps del: f64_sqrt.simps)

lemma np_mean_ramp:
  "np_mean (Array s [Fin 1, Fin 2, Fin 4]) =
   Fin (5254199565265579 / 2251799813685248)"
  by (simp add: np_mean_def pairwise_sum_small f64_steps)

lemma np_var_ramp:
  "np_var (Array s [Fin 1, Fin 2, Fin 4]) =
   Fin (875699927544263 / 562949953421312)"
  by (simp add: np_var_def Let_def np_mean_ramp pairwise_sum_small f64_steps)

lemma np_std_ramp:
  "np_std (Array s [Fin 1, Fin 2, Fin 4]) =
   Fin (5616975604274395 / 4503599627370496)"
  by (simp add: np_std_def np_var_ramp f64_steps del: f64_sqrt.simps)

lemma np_mean_unit:
  "np_mean (Array s [Fin 0, Fin 0, Fin 1]) =
   Fin (6004799503160661 / 18014398509481984)"
  by (simp add: np_mean_def pairwise_sum_small f64_steps)

lemma np_var_unit:
  "np_var (Array s [Fin 0, Fin 0, Fin 1]) =
   Fin (8006399337547549 / 36028797018963968)"
  by (simp add: np_var_def Let_def np_mean_unit pairwise_sum_small f64_steps)

lemma np_std_unit:
  "np_std (Array s [Fin 0, Fin 0, Fin 1]) =
   Fin (4246034448350515 / 9007199254740992)"
  by (simp add: np_std_def np_var_unit f64_steps del: f64_sqrt.simps)

subsection \<open>Correlation metric\<close>

lemma f64_mul_zero_left: "f64_mul (Fin 0) (Fin s) = Fin 0"
  by (simp add: f64_mul_def rnd_zero)

lemma f64_mul_zero_right: "f64_mul (Fin s) (Fin 0) = Fin 0"
  by (simp add: f64_mul_def rnd_zero)

text \<open>
  Claim C4, as amended. For two images of one shape, \<open>zncc\<close> returns exactly 0, without
  raising, whenever the standard deviation that \<^verbatim>\<open>std()\<close> computes for one of them is
  exactly 0 and the one computed for the other is finite. (The computed standard
  deviation of a constant-valued image need not be 0.)
\<close>

theorem zncc_zero_std:
  assumes "wf im1" and "wf im2" and "shape im1 = shape im2"
    and "(np_std im1 = Fin 0 \<and> is_finite (np_std im2)) \<or>
         (is_finite (np_std im1) \<and> np_std im2 = Fin 0)"
  shows "zncc im1 im2 = Inr (Fin 0)"
proof -
  let ?a = "np_map (\<lambda>v. f64_sub v (np_mean im1)) im1"
  let ?b = "np_map (\<lambda>v. f64_sub v (np_mean im2)) im2"
  have "wf ?a" "wf ?b" "shape ?a = shape ?b"
    using assms(1-3) by (simp_all add: wf_np_map shape_np_map)
  then have prod: "np_binop f64_mul ?a ?b = Inr (Array (shape ?a) (map2 f64_mul (data ?a) (data ?b)))"
    by (rule np_binop_same_shape)
  have den: "f64_mul (np_std im1) (np_std im2) = Fin 0"
    using assms(4)
    by (cases "np_std im1"; cases "np_std im2")
       (auto simp: is_finite_def f64_mul_zero_left f64_mul_zero_right)
  show ?thesis unfolding zncc_def prod by (simp add: den)
qed

theorem zncc_zero_std_witness:
  "wf (Array [1, 2] [Fin 5, Fin 5]) \<and> wf (Array [1, 2] [Fin 1, Fin 3]) \<and>
   shape (Array [1, 2] [Fin 5, Fin 5]) = shape (Array [1, 2] [Fin 1, Fin 3]) \<and>
   np_std (Array [1, 2] [Fin 5, Fin 5]) = Fin 0 \<and>
   is_finite (np_std (Array [1, 2] [Fin 1, Fin 3])) \<and>
   zncc (Array [1, 2] [Fin 5, Fin 5]) (Array [1, 2] [Fin 1, Fin 3]) = Inr (Fin 0)"
  using zncc_zero_std [of "Array [1, 2] [Fin 5, Fin 5]" "Array [1, 2] [Fin 1, Fin 3]"]
  by (simp add: wf_def np_std_five np_std_pair is_finite_def)

text \<open>
  The claim as stated fails: the first image below is constant-valued, each pixel the
  float64 number \<^verbatim>\<open>0.1\<close>. Its computed mean is one unit in the last place above
  \<^verbatim>\<open>0.1\<close>, its computed standard deviation is \<open>2^-56\<close> and not 0, and \<open>zncc\<close> returns
  a number near \<open>1.19e-16\<close>, not 0.
\<close>

theorem zncc_constant_counterexample:
  "zncc (Array [1, 3] [Fin f64_tenth, Fin f64_tenth, Fin f64_tenth])
        (Array [1, 3] [Fin 1, Fin 2, Fin 4]) =
   Inr (Fin (2407275258974741 / 20282409603651670423947251286016))"
  by (simp add: zncc_def np_binop_same_shape wf_def np_map_def Let_def
      np_mean_tenth np_std_tenth np_mean_ramp np_std_ramp
      np_mean_def pairwise_sum_small f64_steps)

lemma map2_diag: "map2 f xs xs = map (\<lambda>x. f x x) xs"
  by (induction xs) simp_all

lemma near_one:
  fixes d1 d2 d3 :: real
  assumes "\<bar>d1\<bar> \<le> 1 / 2 ^ 53" and "\<bar>d2\<bar> \<le> 1 / 2 ^ 53" and "\<bar>d3\<bar> \<le> 1 / 2 ^ 53"
  shows "\<bar>(1 + d3) / ((1 + d1) * (1 + d1) * (1 + d2)) - 1\<bar> \<le> 1 / 2 ^ 50"
proof -
  define L U :: real where "L = 1 - 1 / 2 ^ 53" and "U = 1 + 1 / 2 ^ 53"
  have L: "0 < L" by (simp add: L_def)
  have b1: "L \<le> 1 + d1" "1 + d1 \<le> U" using assms(1) by (simp_all add: L_def U_def abs_le_iff)
  have b2: "L \<le> 1 + d2" "1 + d2 \<le> U" using assms(2) by (simp_all add: L_def U_def abs_le_iff)
  have b3: "L \<le> 1 + d3" "1 + d3 \<le> U" using assms(3) by (simp_all add: L_def U_def abs_le_iff)
  define D where "D = (1 + d1) * (1 + d1) * (1 + d2)"
  have Dlo: "L * L * L \<le> D" unfolding D_def using b1 b2 L by (intro mult_mono) simp_all
  have Dhi: "D \<le> U * U * U" unfolding D_def using b1 b2 L by (intro mult_mono) simp_all
  have L3: "0 < L * L * L" using L by simp
  then have Dpos: "0 < D" using Dlo by linarith
  have "(1 + d3) / D \<le> U / (L * L * L)"
    using b3 L Dlo L3 by (intro frac_le) simp_all
  also have "\<dots> \<le> 1 + 1 / 2 ^ 50" by (simp add: L_def U_def)
  finally have up: "(1 + d3) / D \<le> 1 + 1 / 2 ^ 50" .
  have "1 - 1 / 2 ^ 50 \<le> L / (U * U * U)" by (simp add: L_def U_def)
  also have "\<dots> \<le> (1 + d3) / D"
    using b3 L Dhi Dpos by (intro frac_le) simp_all
  finally have "1 - 1 / 2 ^ 50 \<le> (1 + d3) / D" .
  then have "\<bar>(1 + d3) / D - 1\<bar> \<le> 1 / 2 ^ 50"
    using up by (intro abs_leI) linarith+
  then show ?thesis unfolding D_def .
qed

lemma f64_range_facts:
  "f64_half_range \<le> f64_emin" "f64_half_range < f64_emax"
  "2 * f64_half_range + 2 \<le> f64_emin" "2 * f64_half_range + 2 < f64_emax"
  "3 \<le> f64_emin" "4 < f64_emax"
  by (simp_all add: f64_half_range_def f64_emin_def f64_emax_def)

text \<open>
  Claim C5, as amended. For every image whose computed variance lies between \<open>2^-1000\<close>
  and \<open>2^1000\<close>, \<open>zncc(im, im)\<close> returns a finite number within \<open>2^-50\<close> of 1. (It
  need not be equal to 1.)
\<close>

theorem zncc_self_near_one:
  assumes "wf im" and "np_var im = Fin v" and "f64_safe v"
  shows "\<exists>r. zncc im im = Inr (Fin r) \<and> \<bar>r - 1\<bar> \<le> 1 / 2 ^ 50"
proof -
  define h where "h = f64_half_range"
  define a where "a = sqrt v"
  have vlo: "1 / 2 ^ (2 * h) \<le> v" and vhi: "v \<le> 2 ^ (2 * h)"
    using assms(3) by (simp_all add: f64_safe_def h_def)
  have vpos: "0 < v"
  proof -
    have "0 < 1 / (2::real) ^ (2 * h)" by simp
    then show ?thesis using vlo by linarith
  qed
  have aa: "a * a = v" using vpos by (simp add: a_def)
  have apos: "0 < a" using vpos by (simp add: a_def)
  have alo: "1 / 2 ^ h \<le> a"
    unfolding a_def
  proof (rule real_le_rsqrt)
    have "(1 / (2::real) ^ h)\<^sup>2 = 1 / 2 ^ (2 * h)"
      by (simp add: power_divide power_mult [symmetric] mult.commute)
    then show "(1 / 2 ^ h)\<^sup>2 \<le> v" using vlo by simp
  qed
  have ahi: "a \<le> 2 ^ h"
    unfolding a_def
  proof (rule real_le_lsqrt)
    show "0 \<le> (2::real) ^ h" by simp
    have "((2::real) ^ h)\<^sup>2 = 2 ^ (2 * h)"
      by (simp add: power_mult [symmetric] mult.commute)
    then show "v \<le> (2 ^ h)\<^sup>2" using vhi by simp
  qed
  \<comment> \<open>the standard deviation\<close>
  have "1 / (2::real) ^ f64_emin \<le> 1 / 2 ^ h"
    using f64_range_facts(1) by (simp add: h_def field_simps power_increasing)
  then have n1: "1 / 2 ^ f64_emin \<le> \<bar>a\<bar>" using alo apos by linarith
  have "(2::real) ^ h < 2 ^ f64_emax"
    using f64_range_facts(2) by (simp add: h_def)
  then have n2: "\<bar>a\<bar> < 2 ^ f64_emax" using ahi apos by linarith
  from rnd_rel_error [OF n1 n2] obtain d1 where
    d1: "\<bar>d1\<bar> \<le> 1 / 2 ^ 53" and ra: "rnd a = Fin (a * (1 + d1))" by blast
  define s where "s = a * (1 + d1)"
  have std: "np_std im = Fin s"
    using vpos ra by (simp add: np_std_def assms(2) a_def s_def)
  have d1b: "1 / 2 \<le> 1 + d1" "1 + d1 \<le> 2"
    using d1 by (simp_all add: abs_le_iff)
  \<comment> \<open>the denominator\<close>
  have ss: "s * s = v * ((1 + d1) * (1 + d1))"
    by (simp add: s_def aa [symmetric] algebra_simps)
  have "1 / 2 * (1 / 2) \<le> (1 + d1) * (1 + d1)" using d1b by (intro mult_mono) simp_all
  then have f1: "1 / 4 \<le> (1 + d1) * (1 + d1)" by simp
  have "(1 + d1) * (1 + d1) \<le> 2 * 2" using d1b by (intro mult_mono) simp_all
  then have f2: "(1 + d1) * (1 + d1) \<le> 4" by simp
  have sslo: "1 / 2 ^ (2 * h + 2) \<le> s * s"
  proof -
    have "1 / 2 ^ (2 * h) * (1 / 4) \<le> v * ((1 + d1) * (1 + d1))"
      using vlo f1 vpos by (intro mult_mono) simp_all
    then show ?thesis by (simp add: ss)
  qed
  have sshi: "s * s \<le> 2 ^ (2 * h + 2)"
  proof -
    have "v * ((1 + d1) * (1 + d1)) \<le> 2 ^ (2 * h) * 4"
      using vhi f2 vpos by (intro mult_mono) simp_all
    then show ?thesis by (simp add: ss)
  qed
  have "1 / (2::real) ^ f64_emin \<le> 1 / 2 ^ (2 * h + 2)"
    using f64_range_facts(3) by (simp add: h_def field_simps power_increasing del: power_Suc)
  then have n3: "1 / 2 ^ f64_emin \<le> \<bar>s * s\<bar>" using sslo by linarith
  have "(2::real) ^ (2 * h + 2) < 2 ^ f64_emax"
    using f64_range_facts(4) by (simp add: h_def del: power_Suc)
  moreover have "0 \<le> s * s" by simp
  ultimately have n4: "\<bar>s * s\<bar> < 2 ^ f64_emax" using sshi by linarith
  from rnd_rel_error [OF n3 n4] obtain d2 where
    d2: "\<bar>d2\<bar> \<le> 1 / 2 ^ 53" and rs: "rnd (s * s) = Fin (s * s * (1 + d2))" by blast
  define D where "D = s * s * (1 + d2)"
  have den: "f64_mul (np_std im) (np_std im) = Fin D"
    by (simp add: std f64_mul_def rs D_def)
  have d2b: "1 / 2 \<le> 1 + d2" "1 + d2 \<le> 2" using d2 by (simp_all add: abs_le_iff)
  have sspos: "0 < s * s" using apos d1b by (simp add: s_def)
  have "0 < 1 + d2" using d2b by linarith
  then have Dpos: "0 < D" unfolding D_def using sspos by (rule mult_pos_pos [rotated])
  \<comment> \<open>the quotient\<close>
  define q where "q = 1 / ((1 + d1) * (1 + d1) * (1 + d2))"
  have vD: "v / D = q" using vpos by (simp add: D_def ss q_def)
  have den3lo: "1 / 4 * (1 / 2) \<le> (1 + d1) * (1 + d1) * (1 + d2)"
    using f1 d2b by (intro mult_mono) simp_all
  have den3hi: "(1 + d1) * (1 + d1) * (1 + d2) \<le> 4 * 2"
    using f1 f2 d2b by (intro mult_mono) simp_all
  have qlo: "1 / 8 \<le> q"
  proof -
    have "1 / 8 \<le> 1 / ((1 + d1) * (1 + d1) * (1 + d2))"
      using den3hi den3lo by (intro divide_left_mono) simp_all
    then show ?thesis by (simp add: q_def)
  qed
  have qhi: "q \<le> 8"
  proof -
    have "1 / ((1 + d1) * (1 + d1) * (1 + d2)) \<le> 1 / (1 / 8)"
      using den3lo by (intro divide_left_mono) simp_all
    then show ?thesis by (simp add: q_def)
  qed
  have "(2::real) ^ 3 \<le> 2 ^ f64_emin"
    using f64_range_facts(5) by (intro power_increasing) simp_all
  then have "1 / (2::real) ^ f64_emin \<le> 1 / 8" by (simp add: field_simps)
  then have n5: "1 / 2 ^ f64_emin \<le> \<bar>q\<bar>" using qlo by linarith
  have "(2::real) ^ 4 \<le> 2 ^ f64_emax"
    using f64_range_facts(6) by (intro power_increasing) simp_all
  then have "(16::real) \<le> 2 ^ f64_emax" by simp
  then have n6: "\<bar>q\<bar> < 2 ^ f64_emax" using qhi qlo by linarith
  from rnd_rel_error [OF n5 n6] obtain d3 where
    d3: "\<bar>d3\<bar> \<le> 1 / 2 ^ 53" and rq: "rnd q = Fin (q * (1 + d3))" by blast
  have quot: "f64_div (Fin v) (Fin D) = Fin (q * (1 + d3))"
    using Dpos by (simp add: f64_div_def vD rq)
  \<comment> \<open>the numerator is the variance\<close>
  let ?c = "np_map (\<lambda>v. f64_sub v (np_mean im)) im"
  have wfc: "wf ?c" using assms(1) by (simp add: wf_np_map)
  have prod: "np_binop f64_mul ?c ?c = Inr (Array (shape ?c) (map2 f64_mul (data ?c) (data ?c)))"
    by (rule np_binop_same_shape [OF wfc wfc refl])
  have nom: "np_mean (Array (shape ?c) (map2 f64_mul (data ?c) (data ?c))) = Fin v"
    unfolding assms(2) [symmetric]
    by (simp add: np_mean_def np_var_def Let_def map2_diag np_map_def)
  have res: "zncc im im = Inr (Fin (q * (1 + d3)))"
    unfolding zncc_def prod using Dpos by (simp add: nom den quot)
  have "q * (1 + d3) = (1 + d3) / ((1 + d1) * (1 + d1) * (1 + d2))" by (simp add: q_def)
  then have "\<bar>q * (1 + d3) - 1\<bar> \<le> 1 / 2 ^ 50" using near_one [OF d1 d2 d3] by simp
  then show ?thesis using res by blast
qed

theorem zncc_self_near_one_witness:
  "wf (Array [1, 2] [Fin 1, Fin 3]) \<and> np_var (Array [1, 2] [Fin 1, Fin 3]) = Fin 1 \<and> f64_safe 1 \<and>
   (\<exists>r. zncc (Array [1, 2] [Fin 1, Fin 3]) (Array [1, 2] [Fin 1, Fin 3]) = Inr (Fin r) \<and>
        \<bar>r - 1\<bar> \<le> 1 / 2 ^ 50)"
  using zncc_self_near_one [of "Array [1, 2] [Fin 1, Fin 3]" 1]
  by (simp add: wf_def np_var_pair f64_safe_def)

text \<open>
  The claim as stated fails: the image below has non-zero variance and \<open>zncc\<close> of the
  image with itself returns \<open>1 + 2^-52\<close>, the float64 number next above 1.
\<close>

theorem zncc_self_counterexample:
  "zncc (Array [1, 3] [Fin 0, Fin 0, Fin 1])
        (Array [1, 3] [Fin 0, Fin 0, Fin 1]) =
   Inr (Fin (4503599627370497 / 4503599627370496))"
  by (simp add: zncc_def np_binop_same_shape wf_def np_map_def Let_def
      np_mean_unit np_std_unit np_mean_def pairwise_sum_small f64_steps)

subsection \<open>Initial alignment estimator\<close>









subsection \<open>Gradient engine\<close>

lemma select_kernels_custom_invalid:
  assumes "length ks \<noteq> 2 \<or> (\<exists>n s. shape (ks ! 0) = n # s \<and> n < 3)"
  shows "select_kernels (Custom ks) pg = Inl ValueError"
  using assms by (auto simp: select_kernels_def py_len_def ebind_def)

lemma select_kernels_custom_valid:
  assumes "select_kernels (Custom ks) pg = Inr (xk, yk)"
  shows "length ks = 2 \<and> xk = ks ! 0 \<and> yk = ks ! 1"
  using assms
  by (auto simp: select_kernels_def py_len_def ebind_def split: if_splits list.splits)

text \<open>
  Claim C7, as amended. \<open>get_gradient\<close> fails with ValueError, before any convolution,
  whenever the custom kernel specification does not have exactly two entries or its
  first entry has fewer than 3 elements along its first axis; and whenever it returns
  for a custom specification, the result is built from the two kernels supplied, never
  from a default kernel. The second entry is not checked.
\<close>

theorem get_gradient_kernel_check:
  "(length ks \<noteq> 2 \<or> (\<exists>n s. shape (ks ! 0) = n # s \<and> n < 3) \<longrightarrow>
      get_gradient img (Custom ks) pg = Inl ValueError) \<and>
   (get_gradient img (Custom ks) pg = Inr r \<longrightarrow>
      length ks = 2 \<and>
      (\<exists>g_x g_y. convolve2d_same img (ks ! 0) = Inr g_x \<and>
                 convolve2d_same img (ks ! 1) = Inr g_y \<and> r = np_stack2 g_x g_y))"
proof (intro conjI impI)
  assume "length ks \<noteq> 2 \<or> (\<exists>n s. shape (ks ! 0) = n # s \<and> n < 3)"
  then show "get_gradient img (Custom ks) pg = Inl ValueError"
    by (simp add: get_gradient_def select_kernels_custom_invalid ebind_def)
next
  assume r: "get_gradient img (Custom ks) pg = Inr r"
  then obtain xk yk where sel: "select_kernels (Custom ks) pg = Inr (xk, yk)"
    by (cases "select_kernels (Custom ks) pg") (auto simp: get_gradient_def ebind_def)
  from select_kernels_custom_valid [OF sel]
  have ks: "length ks = 2" "xk = ks ! 0" "yk = ks ! 1" by simp_all
  then show "length ks = 2" by simp
  from r sel ks
  show "\<exists>g_x g_y. convolve2d_same img (ks ! 0) = Inr g_x \<and>
                 convolve2d_same img (ks ! 1) = Inr g_y \<and> r = np_stack2 g_x g_y"
    by (auto simp: get_gradient_def ebind_def split: sum.splits)
qed

theorem get_gradient_kernel_check_witness:
  "shape ([Array [1, 3] [1, 0, - 1 :: real], Array [3, 1] [1, 0, - 1]] ! 0) = [1, 3] \<and>
   get_gradient (Array [2, 2] [1, 2, 3, 4])
     (Custom [Array [1, 3] [1, 0, - 1], Array [3, 1] [1, 0, - 1]]) True = Inl ValueError \<and>
   get_gradient (Array [1, 1] [5])
     (Custom [Array [3, 1] [1, 0, - 1], Array [1, 3] [1, 0, - 1]]) True =
     Inr (Array [2, 1, 1] [0, 0]) \<and>
   (\<exists>g_x g_y.
      convolve2d_same (Array [1, 1] [5]) (Array [3, 1] [1, 0, - 1]) = Inr g_x \<and>
      convolve2d_same (Array [1, 1] [5]) (Array [1, 3] [1, 0, - 1]) = Inr g_y \<and>
      Array [2, 1, 1] [0, 0] = np_stack2 g_x g_y)"
proof -
  have ev: "get_gradient (Array [1, 1] [5])
     (Custom [Array [3, 1] [1, 0, - 1], Array [1, 3] [1, 0, - 1]]) True =
     Inr (Array [2, 1, 1] [0, 0])"
    by (simp add: get_gradient_def select_kernels_def py_len_def ebind_def convolve2d_same_def
        conv_full_at_def at2_def np_stack2_def upt_conv_Cons)
  have "get_gradient (Array [2, 2] [1, 2, 3, 4])
     (Custom [Array [1, 3] [1, 0, - 1], Array [3, 1] [1, 0, - 1]]) True = Inl ValueError"
    using get_gradient_kernel_check [of "[Array [1, 3] [1, 0, - 1], Array [3, 1] [1, 0, - 1]]"
        "Array [2, 2] [1, 2, 3, 4]" True]
    by simp
  moreover have "\<exists>g_x g_y.
      convolve2d_same (Array [1, 1] [5]) (Array [3, 1] [1, 0, - 1]) = Inr g_x \<and>
      convolve2d_same (Array [1, 1] [5]) (Array [1, 3] [1, 0, - 1]) = Inr g_y \<and>
      Array [2, 1, 1] [0, 0] = np_stack2 g_x g_y"
    using get_gradient_kernel_check [of "[Array [3, 1] [1, 0, - 1], Array [1, 3] [1, 0, - 1]]"
        "Array [1, 1] [5]" True "Array [2, 1, 1] [0, 0]"] ev
    by simp
  ultimately show ?thesis using ev by simp
qed

text \<open>
  The claim as stated fails: the y-kernel below is a single row of one tap, the rows of
  the x-kernel have one tap each, and \<open>get_gradient\<close> returns normally.
\<close>

theorem get_gradient_counterexample:
  "get_gradient (Array [2, 2] [1, 2, 3, 4])
     (Custom [Array [3, 1] [1, 0, - 1], Array [1, 1] [1]]) True =
   Inr (Array [2, 2, 2] [3, 4, - 1, - 2, 1, 2, 3, 4])"
  by code_simp

subsection \<open>Rigid warp model\<close>

lemma roundtrip_value:
  "ebind (rigid_transform_matrix (Array [3] [vy, ux, phi])) param_from_rt_matrix =
     Inr (Array [3] [Fin vy, Fin ux, Fin (arcsin (sin phi))])"
  by (simp add: ebind_def rigid_transform_matrix_def param_from_rt_matrix_def at2_def
      np_arcsin_def)

text \<open>
  Claim C1, as amended. For every parameter vector \<open>(vy, ux, phi)\<close> whose angle lies in
  \<open>[-pi/2, pi/2]\<close>, \<open>param_from_rt_matrix\<close> applied to \<open>rigid_transform_matrix\<close>
  gives the vector back: the translations are read from the last column and the angle
  is the arcsine of the sine entry.
\<close>

theorem param_roundtrip_principal:
  assumes "- (pi / 2) \<le> phi" and "phi \<le> pi / 2"
  shows "ebind (rigid_transform_matrix (Array [3] [vy, ux, phi])) param_from_rt_matrix =
     Inr (Array [3] [Fin vy, Fin ux, Fin phi])"
  using assms by (simp add: roundtrip_value arcsin_sin)

theorem param_roundtrip_principal_witness:
  "- (pi / 2) \<le> (1 :: real) \<and> (1 :: real) \<le> pi / 2 \<and>
   ebind (rigid_transform_matrix (Array [3] [3 / 2, - 4 / 5, 1])) param_from_rt_matrix =
     Inr (Array [3] [Fin (3 / 2), Fin (- 4 / 5), Fin 1])"
proof -
  have le: "(1 :: real) \<le> pi / 2" using pi_ge_two by simp
  have ge: "- (pi / 2) \<le> (1 :: real)" using pi_ge_two by simp
  show ?thesis using param_roundtrip_principal [OF ge le, of "3 / 2" "- 4 / 5"] le ge by simp
qed

text \<open>
  The claim as stated, for every angle, fails: for \<open>phi = 3\<close> the recovered angle is
  \<open>arcsin (sin 3)\<close>, which is below 2.
\<close>

theorem param_roundtrip_counterexample:
  "ebind (rigid_transform_matrix (Array [3] [0, 0, 3])) param_from_rt_matrix =
     Inr (Array [3] [Fin 0, Fin 0, Fin (arcsin (sin 3))]) \<and>
   arcsin (sin 3) < 2 \<and>
   ebind (rigid_transform_matrix (Array [3] [0, 0, 3])) param_from_rt_matrix \<noteq>
     Inr (Array [3] [Fin 0, Fin 0, Fin 3])"
proof -
  have "arcsin (sin 3) \<le> pi / 2" by (rule arcsin_ubound) simp_all
  then have lt: "arcsin (sin 3) < 2" using pi_half_less_two by simp
  show ?thesis using lt by (simp add: roundtrip_value)
qed

lemma grid_x_eq: "grid_x h w = map (\<lambda>k. real (k mod w)) [0..<h * w]"
proof (induction h)
  case 0
  then show ?case by (simp add: grid_x_def)
next
  case (Suc h)
  have "grid_x (Suc h) w = grid_x h w @ map real [0..<w]"
    unfolding grid_x_def replicate_Suc [of h] replicate_append_same [symmetric]
    by simp
  moreover have "[0..<Suc h * w] = [0..<h * w] @ map (\<lambda>k. h * w + k) [0..<w]"
    using upt_add_eq_append [of 0 "h * w" w] map_add_upt [of "h * w" w]
    by (simp add: add.commute)
  moreover have "map (\<lambda>k. real ((h * w + k) mod w)) [0..<w] = map real [0..<w]"
    by simp
  ultimately show ?case using Suc.IH by (simp add: comp_def)
qed

lemma grid_y_eq: "grid_y h w = map (\<lambda>k. real (k div w)) [0..<h * w]"
proof (induction h)
  case 0
  then show ?case by (simp add: grid_y_def)
next
  case (Suc h)
  have "grid_y (Suc h) w = grid_y h w @ replicate w (real h)"
    by (simp add: grid_y_def)
  moreover have "[0..<Suc h * w] = [0..<h * w] @ map (\<lambda>k. h * w + k) [0..<w]"
    using upt_add_eq_append [of 0 "h * w" w] map_add_upt [of "h * w" w]
    by (simp add: add.commute)
  moreover have "map (\<lambda>k. real ((h * w + k) div w)) [0..<w] = replicate w (real h)"
    by (rule nth_equalityI) simp_all
  ultimately show ?case using Suc.IH by (simp add: comp_def)
qed

lemma map_nth_offset:
  "a + N \<le> length d \<Longrightarrow> map (\<lambda>j. d ! (a + j)) [0..<N] = take N (drop a d)"
  by (rule nth_equalityI) simp_all

lemma split3: 
  assumes "length d = 3 * N"
  shows "take N d @ take N (drop N d) @ take N (drop (2 * N) d) = d"
proof -
  have "take N (drop (2 * N) d) = drop (2 * N) d" using assms by simp
  moreover have "take N (drop N d) @ drop (2 * N) d = drop N d"
    by (metis append_take_drop_id drop_drop mult_2)
  ultimately show ?thesis by simp
qed

lemma np_dot_identity_left:
  assumes "length d = 3 * N"
  shows "np_dot (Array [3, 3] [1, 0, 0, 0, 1, 0, 0, 0, 1]) (Array [3, N] d) =
         Inr (Array [3, N] d)"
proof -
  have rows: "chunks 3 3 [1, 0, 0, 0, 1, 0, 0, 0, 1 :: real] = [[1, 0, 0], [0, 1, 0], [0, 0, 1]]"
    by (simp add: chunks_def upt_conv_Cons)
  have col: "column (Array [3, N] d) j = [d ! j, d ! (N + j), d ! (2 * N + j)]" for j
    by (simp add: column_def at2_def upt_conv_Cons mult_2)
  have "map (\<lambda>j. d ! j) [0..<N] = take N d"
    using map_nth_offset [of 0 N d] assms by simp
  moreover have "map (\<lambda>j. d ! (N + j)) [0..<N] = take N (drop N d)"
    using map_nth_offset [of N N d] assms by simp
  moreover have "map (\<lambda>j. d ! (2 * N + j)) [0..<N] = take N (drop (2 * N) d)"
    using map_nth_offset [of "2 * N" N d] assms by simp
  ultimately show ?thesis
    using split3 [OF assms] by (simp add: np_dot_def rows col dotp_def)
qed

text \<open>
  Claim C9. For every output shape \<open>(h, w)\<close>, \<open>coordinate_warp\<close> applied to the 3x3
  identity matrix returns the canonical grid in row-major order: two arrays of length
  \<open>h * w\<close>, the first holding the column index and the second the row index of every
  pixel.
\<close>

theorem coordinate_warp_identity:
  "coordinate_warp (Array [3, 3] [1, 0, 0, 0, 1, 0, 0, 0, 1]) (h, w) =
     Inr (Array [w * h] (map (\<lambda>k. real (k mod w)) [0..<h * w]),
          Array [w * h] (map (\<lambda>k. real (k div w)) [0..<h * w]))"
proof -
  let ?N = "w * h"
  have lx: "length (grid_x h w) = ?N" and ly: "length (grid_y h w) = ?N"
    by (simp_all add: grid_x_eq grid_y_eq mult.commute)
  let ?d = "grid_x h w @ grid_y h w @ replicate ?N 1"
  have "length ?d = 3 * ?N" using lx ly by simp
  then have dot: "np_dot (Array [3, 3] [1, 0, 0, 0, 1, 0, 0, 0, 1]) (Array [3, ?N] ?d) =
      Inr (Array [3, ?N] ?d)"
    by (rule np_dot_identity_left)
  have "coordinate_warp (Array [3, 3] [1, 0, 0, 0, 1, 0, 0, 0, 1]) (h, w) =
      Inr (Array [?N] (grid_x h w), Array [?N] (grid_y h w))"
    unfolding coordinate_warp_def Let_def fst_conv snd_conv dot
    using lx ly by (simp add: ebind_def np_drop_last_def np_getitem_def)
  then show ?thesis by (simp add: grid_x_eq grid_y_eq)
qed

theorem coordinate_warp_identity_witness:
  "coordinate_warp (Array [3, 3] [1, 0, 0, 0, 1, 0, 0, 0, 1]) (2, 3) =
     Inr (Array [6] [0, 1, 2, 0, 1, 2], Array [6] [0, 0, 0, 1, 1, 1])"
  using coordinate_warp_identity [of 2 3] by (simp add: upt_conv_Cons)

subsection \<open>Hessian\<close>

lemma length_image_of:
  assumes "wf sd_im" and "shape sd_im = n # s" and "i < n"
  shows "length (image_of sd_im i) = prod_list s"
proof -
  have len: "length (data sd_im) = n * prod_list s" using assms by (simp add: wf_def)
  from assms(3) have "Suc i \<le> n" by simp
  then have "Suc i * prod_list s \<le> n * prod_list s" by (rule mult_le_mono1)
  then have "prod_list s \<le> n * prod_list s - i * prod_list s" by simp
  then show ?thesis using len assms(2) by (simp add: image_of_def)
qed

lemma np_getitem_image:
  assumes "shape sd_im = n # s" and "i < n"
  shows "np_getitem sd_im i = Inr (Array s (image_of sd_im i))"
  using assms by (simp add: np_getitem_def image_of_def)

lemma np_mul_images:
  assumes "wf sd_im" and "shape sd_im = n # s" and "i < n" and "j < n"
  shows "np_binop (*) (Array s (image_of sd_im i)) (Array s (image_of sd_im j)) =
         Inr (Array s (map2 (*) (image_of sd_im i) (image_of sd_im j)))"
proof -
  have "wf (Array s (image_of sd_im i))" "wf (Array s (image_of sd_im j))"
    using length_image_of [OF assms(1,2)] assms(3,4) by (simp_all add: wf_def)
  then show ?thesis using np_binop_same_shape by fastforce
qed

lemma hessian_inner_spec:
  assumes "wf sd_im" and "shape sd_im = n # s" and "i < n"
    and "\<forall>j\<in>set js. j < n" and "length H = n * n"
  shows "\<exists>H'. hessian_inner sd_im n i (Array s (image_of sd_im i)) js H = Inr H' \<and>
           length H' = n * n \<and>
           (\<forall>r<n. \<forall>c<n. H' ! (r * n + c) =
              (if r = i \<and> c \<in> set js
               then (if i \<le> c then pixel_sum sd_im i c else H ! (c * n + i))
               else H ! (r * n + c)))"
  using assms(4,5)
proof (induction js arbitrary: H)
  case Nil
  then show ?case by simp
next
  case (Cons j js)
  have jn: "j < n" using Cons.prems(1) by simp
  have js: "\<forall>j\<in>set js. j < n" using Cons.prems(1) by simp
  define v where "v = (if i \<le> j then pixel_sum sd_im i j else H ! (j * n + i))"
  define H1 where "H1 = H[i * n + j := v]"
  have len1: "length H1 = n * n" using Cons.prems(2) by (simp add: H1_def)
  have step: "hessian_inner sd_im n i (Array s (image_of sd_im i)) (j # js) H =
      hessian_inner sd_im n i (Array s (image_of sd_im i)) js H1"
    using np_getitem_image [OF assms(2) jn] np_mul_images [OF assms(1,2,3) jn]
    by (simp add: ebind_def H1_def v_def pixel_sum_def)
  from Cons.IH [OF js len1] obtain H' where
    res: "hessian_inner sd_im n i (Array s (image_of sd_im i)) js H1 = Inr H'"
    and len': "length H' = n * n"
    and val: "\<And>r c. r < n \<Longrightarrow> c < n \<Longrightarrow> H' ! (r * n + c) =
              (if r = i \<and> c \<in> set js
               then (if i \<le> c then pixel_sum sd_im i c else H1 ! (c * n + i))
               else H1 ! (r * n + c))"
    by blast
  have H1_other: "H1 ! (r * n + c) = H ! (r * n + c)"
    if "r < n" "c < n" "r \<noteq> i \<or> c \<noteq> j" for r c
  proof -
    have "r * n + c \<noteq> i * n + j" using index_eq [OF that(2) jn] that(3) by blast
    then show ?thesis by (simp add: H1_def)
  qed
  have H1_at: "H1 ! (i * n + j) = v"
    using index_less [OF assms(3) jn] Cons.prems(2) by (simp add: H1_def)
  have "H' ! (r * n + c) =
      (if r = i \<and> c \<in> set (j # js)
       then (if i \<le> c then pixel_sum sd_im i c else H ! (c * n + i))
       else H ! (r * n + c))" if r: "r < n" and c: "c < n" for r c
  proof -
    consider (later) "r = i" "c \<in> set js" | (now) "r = i" "c = j" "c \<notin> set js"
      | (other) "\<not> (r = i \<and> c \<in> set (j # js))"
      by auto
    then show ?thesis
    proof cases
      case later
      show ?thesis
      proof (cases "i \<le> c")
        case True
        then show ?thesis using val [OF r c] later by simp
      next
        case False
        then have "H1 ! (c * n + i) = H ! (c * n + i)"
          using H1_other [OF c assms(3)] by simp
        then show ?thesis using val [OF r c] later False by simp
      qed
    next
      case now
      then show ?thesis using val [OF r c] H1_at by (simp add: v_def)
    next
      case other
      then have "r \<noteq> i \<or> c \<noteq> j" by auto
      then have "H1 ! (r * n + c) = H ! (r * n + c)" using H1_other [OF r c] by blast
      then show ?thesis using val [OF r c] other by auto
    qed
  qed
  then show ?case using step res len' by simp
qed

lemma sym_sum_commute: "sym_sum sd_im i j = sym_sum sd_im j i"
  by (simp add: sym_sum_def min.commute max.commute)

lemma hessian_outer_spec:
  assumes "wf sd_im" and "shape sd_im = n # s"
  shows "i0 \<le> n \<Longrightarrow> length H = n * n \<Longrightarrow>
         (\<forall>r<i0. \<forall>c<n. H ! (r * n + c) = sym_sum sd_im r c) \<Longrightarrow>
         \<exists>H'. hessian_outer sd_im n [i0..<n] H = Inr H' \<and> length H' = n * n \<and>
              (\<forall>r<n. \<forall>c<n. H' ! (r * n + c) = sym_sum sd_im r c)"
proof (induction "n - i0" arbitrary: i0 H)
  case 0
  then show ?case by simp
next
  case (Suc k)
  then have i0: "i0 < n" by simp
  from hessian_inner_spec [OF assms i0 _ Suc.prems(2), of "[0..<n]"] obtain H1 where
    inner: "hessian_inner sd_im n i0 (Array s (image_of sd_im i0)) [0..<n] H = Inr H1"
    and len1: "length H1 = n * n"
    and val: "\<And>r c. r < n \<Longrightarrow> c < n \<Longrightarrow> H1 ! (r * n + c) =
              (if r = i0 \<and> c \<in> set [0..<n]
               then (if i0 \<le> c then pixel_sum sd_im i0 c else H ! (c * n + i0))
               else H ! (r * n + c))"
    by auto
  have rows: "\<forall>r<Suc i0. \<forall>c<n. H1 ! (r * n + c) = sym_sum sd_im r c"
  proof (intro allI impI)
    fix r c assume r: "r < Suc i0" and c: "c < n"
    then have rn: "r < n" using i0 by simp
    show "H1 ! (r * n + c) = sym_sum sd_im r c"
    proof (cases "r = i0")
      case True
      show ?thesis
      proof (cases "i0 \<le> c")
        case True
        then show ?thesis using val [OF rn c] \<open>r = i0\<close> c
          by (simp add: sym_sum_def min_def max_def)
      next
        case False
        then have "H ! (c * n + i0) = sym_sum sd_im c i0" using Suc.prems(3) i0 by simp
        then show ?thesis using val [OF rn c] \<open>r = i0\<close> c False
          by (simp add: sym_sum_commute)
      qed
    next
      case False
      then have "r < i0" using r by simp
      then show ?thesis using val [OF rn c] False Suc.prems(3) c by simp
    qed
  qed
  have k: "k = n - Suc i0" using Suc.hyps(2) by simp
  from Suc.hyps(1) [OF k _ len1 rows] i0 obtain H' where
    "hessian_outer sd_im n [Suc i0..<n] H1 = Inr H'" "length H' = n * n"
    "\<forall>r<n. \<forall>c<n. H' ! (r * n + c) = sym_sum sd_im r c"
    by auto
  then show ?case
    using i0 inner np_getitem_image [OF assms(2) i0]
    by (simp add: upt_conv_Cons ebind_def)
qed

text \<open>
  Claim C6. When \<open>n_param\<close> is the number of steepest-descent images, \<open>hessian\<close>
  returns an \<open>n_param\<close> by \<open>n_param\<close> matrix that is exactly symmetric, and whose
  entries on and above the diagonal are the pixel sums of the products of the images.
\<close>

theorem hessian_symmetric:
  assumes "wf sd_im" and "shape sd_im = n_param # s"
  shows "\<exists>H. hessian sd_im n_param = Inr H \<and> shape H = [n_param, n_param] \<and> wf H \<and>
           (\<forall>i<n_param. \<forall>j<n_param. at2 H i j = at2 H j i) \<and>
           (\<forall>i<n_param. \<forall>j<n_param. i \<le> j \<longrightarrow> at2 H i j = pixel_sum sd_im i j)"
proof -
  from hessian_outer_spec [OF assms, of 0 "replicate (n_param * n_param) 0"]
  obtain H' where
    outer: "hessian_outer sd_im n_param [0..<n_param] (replicate (n_param * n_param) 0) = Inr H'"
    and len: "length H' = n_param * n_param"
    and val: "\<And>r c. r < n_param \<Longrightarrow> c < n_param \<Longrightarrow>
                H' ! (r * n_param + c) = sym_sum sd_im r c"
    by auto
  let ?H = "Array [n_param, n_param] H'"
  have "hessian sd_im n_param = Inr ?H" by (simp add: hessian_def outer ebind_def)
  moreover have "wf ?H" by (simp add: wf_def len)
  moreover have "at2 ?H i j = at2 ?H j i" if "i < n_param" "j < n_param" for i j
    using val that by (simp add: at2_def sym_sum_commute)
  moreover have "at2 ?H i j = pixel_sum sd_im i j" if "i < n_param" "j < n_param" "i \<le> j" for i j
    using val that by (simp add: at2_def sym_sum_def min_def max_def)
  ultimately show ?thesis by auto
qed

theorem hessian_symmetric_witness:
  "\<exists>H. hessian (Array [3, 2] [1, 2, 3, 4, 5, 6]) 3 = Inr H \<and> shape H = [3, 3] \<and> wf H \<and>
       (\<forall>i<3. \<forall>j<3. at2 H i j = at2 H j i) \<and>
       (\<forall>i<3. \<forall>j<3. i \<le> j \<longrightarrow> at2 H i j = pixel_sum (Array [3, 2] [1, 2, 3, 4, 5, 6]) i j)"
  using hessian_symmetric [of "Array [3, 2] [1, 2, 3, 4, 5, 6]" 3 "[2]"]
  by (simp add: wf_def)

subsection \<open>Shapes of paired arrays\<close>

lemma shape_np_binop:
  "np_binop f a b = Inr r \<Longrightarrow> broadcast_shapes (shape a) (shape b) = Some (shape r)"
  by (auto simp: np_binop_def split: option.splits)

lemma np_binop_error_iff:
  "np_binop f a b = Inl e \<longleftrightarrow> e = ValueError \<and> broadcast_shapes (shape a) (shape b) = None"
  by (auto simp: np_binop_def split: option.splits)

lemma sd_images_general:
  assumes "shape grad = 2 # sg" and "shape jac = 2 # sj"
  shows "(case broadcast_shapes sg sj of
            None \<Rightarrow> sd_images grad jac = Inl ValueError
          | Some s \<Rightarrow> \<exists>r. sd_images grad jac = Inr r \<and> shape r = s)"
proof (cases "broadcast_shapes sg sj")
  case None
  then show ?thesis
    using assms by (simp add: sd_images_def unpack2_def ebind_def np_binop_def)
next
  case (Some s)
  then show ?thesis
    using assms
    by (simp add: sd_images_def unpack2_def ebind_def np_binop_def broadcast_shapes_same)
qed

lemma broadcast_shapes_2_3:
  "broadcast_shapes [gh, gw] [n, h, w] =
     (if compatible gh h \<and> compatible gw w
      then Some [n, if gh = h \<or> h = 1 then gh else h, if gw = w \<or> w = 1 then gw else w]
      else None)"
  by (auto simp: broadcast_shapes_def compatible_def)

lemma shape_jacobian_rigid: "shape (jacobian_rigid h w) = [2, 3, h, w]"
  by (simp add: jacobian_rigid_def Let_def)

text \<open>
  Claim C8, as amended. For a gradient of shape \<open>(2, gh, gw)\<close> and a Jacobian of shape
  \<open>(2, n, h, w)\<close>, \<open>sd_images\<close> fails with ValueError exactly when an axis length of
  the gradient and the corresponding one of the Jacobian differ and neither is 1;
  otherwise it returns, with a length 1 broadcast against the other. For coordinate
  arrays of one shape whose number of elements is not the product of \<open>output_shape\<close>,
  \<open>interpolate_warp\<close> fails, with ValueError when the spline is supplied.
\<close>

theorem shape_mismatch_behaviour:
  "(shape grad = [2, gh, gw] \<and> shape jac = [2, n, h, w] \<longrightarrow>
      (sd_images grad jac = Inl ValueError \<longleftrightarrow> \<not> (compatible gh h \<and> compatible gw w)) \<and>
      (compatible gh h \<and> compatible gw w \<longrightarrow>
         (\<exists>r. sd_images grad jac = Inr r \<and>
              shape r = [n, if gh = h \<or> h = 1 then gh else h,
                            if gw = w \<or> w = 1 then gw else w]))) \<and>
   (wf xi \<and> wf yi \<and> shape xi = shape yi \<and> prod_list output_shape \<noteq> length (data xi) \<longrightarrow>
      interpolate_warp fit xi yi target output_shape (Some spl) order = Inl ValueError \<and>
      (\<exists>e. interpolate_warp fit xi yi target output_shape None order = Inl e))"
proof (intro conjI impI)
  assume a: "shape grad = [2, gh, gw] \<and> shape jac = [2, n, h, w]"
  then have g: "case broadcast_shapes [gh, gw] [n, h, w] of
            None \<Rightarrow> sd_images grad jac = Inl ValueError
          | Some s \<Rightarrow> \<exists>r. sd_images grad jac = Inr r \<and> shape r = s"
    using sd_images_general [of grad "[gh, gw]" jac "[n, h, w]"] by simp
  show "sd_images grad jac = Inl ValueError \<longleftrightarrow> \<not> (compatible gh h \<and> compatible gw w)"
    using g unfolding broadcast_shapes_2_3 by (auto split: if_splits)
  show "\<exists>r. sd_images grad jac = Inr r \<and>
              shape r = [n, if gh = h \<or> h = 1 then gh else h,
                            if gw = w \<or> w = 1 then gw else w]"
    if "compatible gh h \<and> compatible gw w"
    using g that unfolding broadcast_shapes_2_3 by simp
next
  assume b: "wf xi \<and> wf yi \<and> shape xi = shape yi \<and>
    prod_list output_shape \<noteq> length (data xi)"
  then have ev: "np_binop s yi xi = Inr (Array (shape yi) (map2 s (data yi) (data xi)))" for s
    using np_binop_same_shape [of yi xi s] by simp
  have len: "length (data yi) = length (data xi)" using b by (simp add: wf_def)
  have res: "ebind (np_binop s yi xi) (\<lambda>values. np_reshape values output_shape) =
      Inl ValueError" for s
    using b len by (simp add: ev np_reshape_def)
  show "interpolate_warp fit xi yi target output_shape (Some spl) order = Inl ValueError"
    by (simp add: interpolate_warp_def res)
  show "\<exists>e. interpolate_warp fit xi yi target output_shape None order = Inl e"
    by (cases "fit target order") (simp_all add: interpolate_warp_def res)
qed

theorem shape_mismatch_behaviour_witness:
  "shape (Array [2, 3, 2] [1, 2, 3, 4, 5, 6, 7, 8, 9, 10, 11, 12 :: real]) = [2, 3, 2] \<and>
   shape (jacobian_rigid 2 2) = [2, 3, 2, 2] \<and> \<not> compatible 3 2 \<and>
   sd_images (Array [2, 3, 2] [1, 2, 3, 4, 5, 6, 7, 8, 9, 10, 11, 12]) (jacobian_rigid 2 2) =
     Inl ValueError \<and>
   compatible 2 2 \<and>
   (\<exists>r. sd_images (Array [2, 2, 2] [1, 2, 3, 4, 5, 6, 7, 8]) (jacobian_rigid 2 2) = Inr r \<and>
        shape r = [3, 2, 2]) \<and>
   wf (Array [3] [7, 8, 9 :: real]) \<and> wf (Array [3] [1, 2, 3 :: real]) \<and>
   prod_list [2, 2] \<noteq> length (data (Array [3] [7, 8, 9 :: real])) \<and>
   interpolate_warp (\<lambda>t k. Inl TypeError) (Array [3] [7, 8, 9]) (Array [3] [1, 2, 3])
     (Array [0] []) [2, 2] (Some (\<lambda>y x. y + 10 * x)) 3 = Inl ValueError"
  using shape_mismatch_behaviour [of "Array [2, 3, 2] [1, 2, 3, 4, 5, 6, 7, 8, 9, 10, 11, 12]"
      3 2 "jacobian_rigid 2 2" 3 2 2 "Array [3] [7, 8, 9]" "Array [3] [1, 2, 3]" "[2, 2]"
      "\<lambda>t k. Inl TypeError" "Array [0] []" "\<lambda>y x. y + 10 * x" 3]
    shape_mismatch_behaviour [of "Array [2, 2, 2] [1, 2, 3, 4, 5, 6, 7, 8]"
      2 2 "jacobian_rigid 2 2" 3 2 2 "Array [3] [7, 8, 9]" "Array [3] [1, 2, 3]" "[2, 2]"
      "\<lambda>t k. Inl TypeError" "Array [0] []" "\<lambda>y x. y + 10 * x" 3]
  by (simp add: shape_jacobian_rigid compatible_def wf_def)

text \<open>
  The claim as stated fails: a gradient of 1x1 images against the Jacobian of a 2x2
  frame, and a coordinate array of length 1 against one of length 4, are broadcast
  without an error.
\<close>

theorem shape_mismatch_counterexample:
  "sd_images (Array [2, 1, 1] [2, 3]) (jacobian_rigid 2 2) =
     Inr (Array [3, 2, 2] [3, 3, 3, 3, 2, 2, 2, 2, 0, 3, - 2, 1]) \<and>
   interpolate_warp (\<lambda>t k. Inl TypeError) (Array [1] [7]) (Array [4] [1, 2, 3, 4])
     (Array [0] []) [2, 2] (Some (\<lambda>y x. y + 10 * x)) 3 =
     Inr (Array [2, 2] [71, 72, 73, 74])"
  by code_simp

subsection \<open>Residual and update engine\<close>

lemma length9:
  assumes "length xs = 9"
  shows "\<exists>a b c d e f g h i. xs = [a, b, c, d, e, f, g, h, i]"
  using assms by (auto simp: eval_nat_numeral length_Suc_conv)

lemma np_dot_zero_vector:
  assumes "wf inv_H" and "shape inv_H = [3, 3]"
  shows "np_dot inv_H (Array [3] [0, 0, 0]) = Inr (Array [3] [0, 0, 0])"
proof -
  have "length (data inv_H) = 9" using assms by (simp add: wf_def)
  then obtain a b c d e f g h i where d: "data inv_H = [a, b, c, d, e, f, g, h, i]"
    using length9 by blast
  show ?thesis
    by (simp add: np_dot_def assms(2) d chunks_def upt_conv_Cons dotp_def)
qed

lemma rigid_transform_matrix_zero:
  "rigid_transform_matrix (Array [3] [0, 0, 0]) = Inr (Array [3, 3] [1, 0, 0, 0, 1, 0, 0, 0, 1])"
  by (simp add: rigid_transform_matrix_def)

lemma np_linalg_inv_identity:
  "np_linalg_inv (Array [3, 3] [1, 0, 0, 0, 1, 0, 0, 0, 1]) =
     Inr (Array [3, 3] [1, 0, 0, 0, 1, 0, 0, 0, 1])"
  by (simp add: np_linalg_inv_def at2_def)

lemma np_dot_identity_right:
  assumes "wf W" and "shape W = [3, 3]"
  shows "np_dot W (Array [3, 3] [1, 0, 0, 0, 1, 0, 0, 0, 1]) = Inr W"
proof -
  have "length (data W) = 9" using assms by (simp add: wf_def)
  then obtain a b c d e f g h i where d: "data W = [a, b, c, d, e, f, g, h, i]"
    using length9 by blast
  have "np_dot W (Array [3, 3] [1, 0, 0, 0, 1, 0, 0, 0, 1]) = Inr (Array [3, 3] (data W))"
    by (simp add: np_dot_def assms(2) d chunks_def upt_conv_Cons dotp_def column_def at2_def)
  then show ?thesis using assms(2) by (cases W) simp
qed

text \<open>
  Claim C2. For every 3x3 matrix \<open>inv_H\<close> and every 3x3 warp matrix \<open>W\<close>,
  \<open>warp_update\<close> with the zero vector for \<open>b\<close> returns \<open>W\<close>: the increment \<open>dp\<close> is
  zero, its rigid matrix is the identity, and so is the inverse of that matrix.
\<close>

theorem warp_update_zero_step:
  assumes "wf inv_H" and "shape inv_H = [3, 3]" and "wf W" and "shape W = [3, 3]"
  shows "warp_update inv_H (Array [3] [0, 0, 0]) W = Inr W"
  unfolding warp_update_def np_dot_zero_vector [OF assms(1,2)]
  by (simp add: ebind_def rigid_transform_matrix_zero np_linalg_inv_identity
      np_dot_identity_right [OF assms(3,4)])

theorem warp_update_zero_step_witness:
  "wf (Array [3, 3] [2, 0, 1, 0, 3, 0, 0, 0, 1 :: real]) \<and>
   wf (Array [3, 3] [0, - 1, 4, 1, 0, 5, 0, 0, 1 :: real]) \<and>
   warp_update (Array [3, 3] [2, 0, 1, 0, 3, 0, 0, 0, 1]) (Array [3] [0, 0, 0])
     (Array [3, 3] [0, - 1, 4, 1, 0, 5, 0, 0, 1]) =
   Inr (Array [3, 3] [0, - 1, 4, 1, 0, 5, 0, 0, 1])"
  using warp_update_zero_step [of "Array [3, 3] [2, 0, 1, 0, 3, 0, 0, 0, 1]"
      "Array [3, 3] [0, - 1, 4, 1, 0, 5, 0, 0, 1]"]
  by (simp add: wf_def)

lemma round_fl_not_finite: "\<not> is_finite a \<Longrightarrow> round_fl a = a"
  by (cases a) (simp_all add: is_finite_def)

lemma div_zero_not_finite: "\<not> is_finite (f64_div a (Fin 0))"
  by (cases a) (simp_all add: f64_div_def is_finite_def inf_of_sign_def)

lemma mul_not_finite: "\<not> is_finite a \<Longrightarrow> \<not> is_finite (f64_mul a b)"
  by (cases a; cases b) (simp_all add: f64_mul_def is_finite_def inf_of_sign_def)

lemma sub_not_finite: "\<not> is_finite b \<Longrightarrow> \<not> is_finite (f64_sub a b)"
  by (cases a; cases b) (simp_all add: f64_sub_def fsub_def is_finite_def)

lemma not_finite_cases: "\<not> is_finite v \<longleftrightarrow> v = PInf \<or> v = NInf \<or> v = NaN"
  by (cases v) (simp_all add: is_finite_def)

lemma f64_sub_NaN: "f64_sub a NaN = NaN"
  by (cases a) (simp_all add: f64_sub_def fsub_def)

text \<open>
  Claim C3, as amended. When the standard deviation that \<^verbatim>\<open>np.std\<close> computes for the
  current sample \<open>g\<close> is exactly 0 (\<open>g\<close> of the shape of \<open>f\<close>), \<open>get_error_image\<close>
  raises no error: it returns an error image of the shape of \<open>f\<close> in which every value
  is an infinity or nan.
\<close>

theorem get_error_image_zero_std:
  assumes "wf f" and "wf g" and "shape f = shape g" and "np_std g = Fin 0"
  shows "\<exists>r. get_error_image f f_stats g = Inr r \<and> shape r = shape f \<and> wf r \<and>
             (\<forall>v\<in>set (data r). v = PInf \<or> v = NInf \<or> v = NaN)"
proof -
  define ratio where "ratio = f64_div (snd f_stats) (Fin 0)"
  let ?a = "np_map (\<lambda>v. f64_sub v (fst f_stats)) f"
  let ?b = "np_map (\<lambda>v. f64_mul ratio v) (np_map (\<lambda>v. f64_sub v (np_mean g)) g)"
  let ?d = "map2 f64_sub (data ?a) (data ?b)"
  have nf: "\<not> is_finite ratio" unfolding ratio_def by (rule div_zero_not_finite)
  have len: "length (data f) = length (data g)" using assms(1-3) by (simp add: wf_def)
  have "wf ?a" "wf ?b" "shape ?a = shape ?b"
    using assms(1-3) by (simp_all add: wf_np_map shape_np_map)
  then have "np_binop f64_sub ?a ?b = Inr (Array (shape ?a) ?d)"
    by (rule np_binop_same_shape)
  then have res: "get_error_image f f_stats g = Inr (Array (shape f) ?d)"
    by (simp add: get_error_image_def Let_def assms(4) ratio_def shape_np_map)
  have "\<not> is_finite v" if "v \<in> set ?d" for v
  proof -
    from that obtain x y where "v = f64_sub x y" "y \<in> set (data ?b)"
      by (auto dest: set_zip_rightD)
    moreover from this(2) have "\<not> is_finite y"
      using nf by (auto simp: np_map_def mul_not_finite)
    ultimately show ?thesis by (simp add: sub_not_finite)
  qed
  moreover have "wf (Array (shape f) ?d)"
    using assms(1) len by (simp add: wf_def np_map_def)
  ultimately show ?thesis using res by (auto simp: not_finite_cases)
qed

theorem get_error_image_zero_std_witness:
  "wf (Array [1, 2] [Fin 1, Fin 3]) \<and> wf (Array [1, 2] [Fin 5, Fin 5]) \<and>
   shape (Array [1, 2] [Fin 1, Fin 3]) = shape (Array [1, 2] [Fin 5, Fin 5]) \<and>
   np_std (Array [1, 2] [Fin 5, Fin 5]) = Fin 0 \<and>
   (\<exists>r. get_error_image (Array [1, 2] [Fin 1, Fin 3]) (Fin 2, Fin 1) (Array [1, 2] [Fin 5, Fin 5]) = Inr r \<and>
        shape r = shape (Array [1, 2] [Fin 1, Fin 3]) \<and> wf r \<and>
        (\<forall>v\<in>set (data r). v = PInf \<or> v = NInf \<or> v = NaN))"
  using get_error_image_zero_std [of "Array [1, 2] [Fin 1, Fin 3]" "Array [1, 2] [Fin 5, Fin 5]" "(Fin 2, Fin 1)"]
  by (simp add: wf_def np_std_five)

text \<open>
  The claim as stated fails: for the constant sample below, and the mean 2 and standard
  deviation 1 of the reference image, \<open>get_error_image\<close> raises no error and returns
  an error image of nan values.
\<close>

theorem get_error_image_counterexample:
  "get_error_image (Array [2, 2] [Fin 1, Fin 3, Fin 1, Fin 3]) (Fin 2, Fin 1)
     (Array [2, 2] [Fin 7, Fin 7, Fin 7, Fin 7]) =
   Inr (Array [2, 2] [NaN, NaN, NaN, NaN])"
  by (simp add: get_error_image_def np_binop_same_shape wf_def np_map_def Let_def
      np_mean_seven np_std_seven f64_steps f64_sub_NaN
      f64_div_def f64_mul_def inf_of_sign_def)

end
